theory Spec2Isabelle
  imports Main "HOL-Library.AList"
begin

section \<open>Exceptions and truth values\<close>

text \<open>
  Every exception class the modelled code raises is a constructor; the argument is the
  message. Messages that the source writes in Chinese are given in English.
\<close>

datatype py_error =
    ValueError string
  | AttributeError string
  | TypeError string
  | InvalidResourceTypeError string
  | DuplicateApiKeyError string
  | Forbidden
  | Unauthorized string
  | NameError string
  | DataError string
  | RagRequestError string
  | RagResponseError string
  | KeyError string
  | IntegrityError string
  | PyException string


text \<open>The truth value of an optional string: \<open>None\<close> and the empty string are falsy.\<close>

definition truthy :: "string option \<Rightarrow> bool" where
  "truthy a = (case a of None \<Rightarrow> False | Some s \<Rightarrow> s \<noteq> [])"

section \<open>JSON values\<close>

text \<open>
  A JSON value, as \<open>json.loads\<close> and \<open>response.json()\<close> return it. Numbers are
  integers here.
\<close>

datatype json =
    JNull
  | JBool bool
  | JNum int
  | JStr string
  | JArr "json list"
  | JObj "(string \<times> json) list"

text \<open>A key of a decoded JSON object; of a repeated key the last value counts.\<close>

definition obj_get :: "(string \<times> json) list \<Rightarrow> string \<Rightarrow> json option" where
  "obj_get kvs k = map_of (rev kvs) k"

section \<open>Role-account service (services/role\_account\_service.py)\<close>

text \<open>The rows of models/account.py that \<open>add_account_to_role\<close> reads and writes.\<close>

record Role =
  role_id :: string
  role_tenant_id :: string
  role_name :: string

record TenantAccountJoin =
  taj_tenant_id :: string
  taj_account_id :: string

record AccountRole =
  ar_id :: string
  ar_tenant_id :: string
  ar_account_id :: string
  ar_role_id :: string

record Account =
  account_id :: string
  account_name :: string

record rbac_db =
  roles :: "Role list"
  tenant_account_joins :: "TenantAccountJoin list"
  account_roles :: "AccountRole list"
  accounts :: "Account list"

text \<open>The dict \<open>add_account_to_role\<close> returns; the early return has no \<open>account_name\<close> key.\<close>

record add_account_result =
  success :: bool
  message :: string
  res_role_name :: string
  res_account_name :: "string option"

text \<open>
  \<open>RoleAccountService.add_account_to_role\<close>. \<open>new_id\<close> is the primary key the
  database generates for the inserted row (\<open>uuid_generate_v4()\<close>). The two
  \<open>ValueError\<close>s are raised before any write, so an error leaves the store as it was.
\<close>

definition add_account_to_role ::
  "rbac_db \<Rightarrow> string \<Rightarrow> string \<Rightarrow> string \<Rightarrow> string \<Rightarrow> py_error + (rbac_db \<times> add_account_result)" where
  "add_account_to_role db new_id tenant_id rid aid =
    (case find (\<lambda>r. role_id r = rid) (roles db) of
       None \<Rightarrow> Inl (ValueError ''role does not exist or no permission'')
     | Some role \<Rightarrow>
        if role_tenant_id role \<noteq> tenant_id
        then Inl (ValueError ''role does not exist or no permission'')
        else
          (case find (\<lambda>j. taj_tenant_id j = tenant_id \<and> taj_account_id j = aid)
                  (tenant_account_joins db) of
             None \<Rightarrow> Inl (ValueError ''user does not belong to the current tenant'')
           | Some tenant_join \<Rightarrow>
              (case find (\<lambda>r. ar_tenant_id r = tenant_id \<and> ar_account_id r = aid \<and> ar_role_id r = rid)
                      (account_roles db) of
                 Some existing \<Rightarrow>
                   Inr (db, \<lparr>success = False, message = ''user already has this role'',
                             res_role_name = role_name role, res_account_name = None\<rparr>)
               | None \<Rightarrow>
                   let db1 = db\<lparr>account_roles :=
                               filter (\<lambda>r. \<not> (ar_tenant_id r = tenant_id \<and> ar_account_id r = aid))
                                 (account_roles db)\<rparr>;
                       user_role = \<lparr>ar_id = new_id, ar_tenant_id = tenant_id,
                                    ar_account_id = aid, ar_role_id = rid\<rparr>;
                       db2 = db1\<lparr>account_roles := account_roles db1 @ [user_role]\<rparr>;
                       account = find (\<lambda>a. account_id a = aid) (accounts db2)
                   in Inr (db2, \<lparr>success = True, message = ''user role assigned'',
                                  res_role_name = role_name role,
                                  res_account_name =
                                    Some (case account of Some a \<Rightarrow> account_name a
                                          | None \<Rightarrow> ''unknown user'')\<rparr>))))"

text \<open>The \<open>AccountRole\<close> rows of one account in one tenant.\<close>

definition account_roles_of :: "rbac_db \<Rightarrow> string \<Rightarrow> string \<Rightarrow> AccountRole list" where
  "account_roles_of db tenant_id aid =
     filter (\<lambda>r. ar_tenant_id r = tenant_id \<and> ar_account_id r = aid) (account_roles db)"

definition rbac_example :: rbac_db where
  "rbac_example =
     \<lparr>roles = [\<lparr>role_id = ''r1'', role_tenant_id = ''t1'', role_name = ''viewer''\<rparr>,
               \<lparr>role_id = ''r2'', role_tenant_id = ''t1'', role_name = ''auditor''\<rparr>,
               \<lparr>role_id = ''r3'', role_tenant_id = ''t1'', role_name = ''builder''\<rparr>],
      tenant_account_joins = [\<lparr>taj_tenant_id = ''t1'', taj_account_id = ''a1''\<rparr>,
                              \<lparr>taj_tenant_id = ''t1'', taj_account_id = ''a2''\<rparr>],
      account_roles = [\<lparr>ar_id = ''x1'', ar_tenant_id = ''t1'', ar_account_id = ''a1'', ar_role_id = ''r1''\<rparr>,
                       \<lparr>ar_id = ''x2'', ar_tenant_id = ''t1'', ar_account_id = ''a2'', ar_role_id = ''r1''\<rparr>,
                       \<lparr>ar_id = ''x3'', ar_tenant_id = ''t1'', ar_account_id = ''a1'', ar_role_id = ''r2''\<rparr>],
      accounts = [\<lparr>account_id = ''a1'', account_name = ''Ann''\<rparr>]\<rparr>"

section \<open>API key service (services/api\_key\_service.py)\<close>

text \<open>
  The \<open>ApiKey\<close> row. Its class (models/model.py) is not among the sources; the fields
  are those \<open>create_api_key\<close> sets and \<open>get_api_keys\<close> filters on. A datetime is
  an integer time stamp; a nullable column is an option.
\<close>

record ApiKey =
  ak_id :: string
  ak_tenant_id :: string
  ak_key :: string
  ak_resource_type :: string
  ak_resource_id :: string
  ak_resource_name :: string
  ak_validity_type :: string
  ak_start_date :: "int option"
  ak_end_date :: "int option"
  ak_authorized_person :: string
  ak_description :: string
  ak_is_active :: bool
  ak_created_by :: string
  ak_updated_by :: string
  ak_created_at :: int

text \<open>
  SQL comparison of a nullable column with a value: a comparison with NULL is not true,
  so the row is not selected.
\<close>

definition sql_ge :: "int option \<Rightarrow> int \<Rightarrow> bool" where
  "sql_ge c v = (case c of None \<Rightarrow> False | Some x \<Rightarrow> x \<ge> v)"

definition sql_lt :: "int option \<Rightarrow> int \<Rightarrow> bool" where
  "sql_lt c v = (case c of None \<Rightarrow> False | Some x \<Rightarrow> x < v)"

text \<open>
  The SQL operator \<open>ILIKE\<close>: \<open>%\<close> matches any run of characters, \<open>_\<close> any one
  character, a backslash takes the next character literally, and letters match whatever
  their case. A pattern that ends in a lone backslash matches nothing here (the database
  rejects it; the patterns of this service end in \<open>%\<close>).
\<close>

definition lower_char :: "char \<Rightarrow> char" where
  "lower_char c =
     (let n = (of_char c :: nat) in if 65 \<le> n \<and> n \<le> 90 then char_of (n + 32) else c)"

fun like_match :: "string \<Rightarrow> string \<Rightarrow> bool" where
  "like_match [] s = (s = [])"
| "like_match (p # ps) s =
     (if p = CHR ''%'' then
        (like_match ps s \<or> (case s of [] \<Rightarrow> False | c # cs \<Rightarrow> like_match (p # ps) cs))
      else if p = CHR ''_'' then
        (case s of [] \<Rightarrow> False | c # cs \<Rightarrow> like_match ps cs)
      else if p = CHR 0x5C then
        (case ps of [] \<Rightarrow> False
         | q # qs \<Rightarrow> (case s of [] \<Rightarrow> False | c # cs \<Rightarrow> c = q \<and> like_match qs cs))
      else
        (case s of [] \<Rightarrow> False | c # cs \<Rightarrow> c = p \<and> like_match ps cs))"

definition ilike :: "string \<Rightarrow> string \<Rightarrow> bool" where
  "ilike column pattern = like_match (map lower_char pattern) (map lower_char column)"

text \<open>
  The \<open>status\<close> branch of \<open>get_api_keys\<close> (lines 90 to 101): the condition it adds to
  the query, as a predicate on a row. An absent or empty status, and a status that is
  none of the three names, add no condition.
\<close>

definition status_condition :: "string option \<Rightarrow> int \<Rightarrow> ApiKey \<Rightarrow> bool" where
  "status_condition status now k =
     (case status of
        None \<Rightarrow> True
      | Some st \<Rightarrow>
          if st = [] then True
          else if st = ''active'' then sql_ge (ak_end_date k) now \<and> ak_is_active k = True
          else if st = ''expired'' then ak_validity_type k = ''limited'' \<and> sql_lt (ak_end_date k) now
          else if st = ''inactive'' then ak_is_active k = False
          else True)"

text \<open>
  The query \<open>get_api_keys\<close> builds (lines 79 to 103): the rows of the tenant that pass
  every filter given, newest first. \<open>now\<close> is \<open>datetime.utcnow()\<close>.
\<close>

definition get_api_keys_query ::
  "ApiKey list \<Rightarrow> int \<Rightarrow> string \<Rightarrow> string option \<Rightarrow> string option \<Rightarrow> string option \<Rightarrow> string option
     \<Rightarrow> ApiKey list" where
  "get_api_keys_query api_keys now tenant_id resource_type resource_name authorized_person status =
     (let q0 = filter (\<lambda>k. ak_tenant_id k = tenant_id) api_keys;
          q1 = (if truthy resource_type
                then filter (\<lambda>k. ak_resource_type k = the resource_type) q0 else q0);
          q2 = (if truthy resource_name
                then filter (\<lambda>k. ilike (ak_resource_name k) (''%'' @ the resource_name @ ''%'')) q1
                else q1);
          q3 = (if truthy authorized_person
                then filter (\<lambda>k. ilike (ak_authorized_person k) (''%'' @ the authorized_person @ ''%'')) q2
                else q2);
          q4 = (if truthy status then filter (status_condition status now) q3 else q3)
      in rev (sort_key ak_created_at q4))"

text \<open>
  \<open>db.paginate(query, page, per_page, error_out=False)\<close>: a page below 1 is page 1, a
  page size below 1 is 20; the result carries the page's rows and the count of all rows.
\<close>

record 'a pagination =
  items :: "'a list"
  total :: nat

definition paginate :: "'a list \<Rightarrow> int \<Rightarrow> int \<Rightarrow> 'a pagination" where
  "paginate rows page per_page =
     (let pg = (if page < 1 then 1 else page);
          pp = (if per_page < 1 then 20 else per_page)
      in \<lparr>items = take (nat pp) (drop (nat ((pg - 1) * pp)) rows), total = length rows\<rparr>)"

definition get_api_keys ::
  "ApiKey list \<Rightarrow> int \<Rightarrow> string \<Rightarrow> int \<Rightarrow> int \<Rightarrow> string option \<Rightarrow> string option \<Rightarrow> string option
     \<Rightarrow> string option \<Rightarrow> ApiKey pagination" where
  "get_api_keys api_keys now tenant_id page per_page resource_type resource_name authorized_person status =
     paginate (get_api_keys_query api_keys now tenant_id resource_type resource_name
                 authorized_person status) page per_page"

text \<open>Every filter but the status one, as a predicate on a row.\<close>

definition other_filters :: "string \<Rightarrow> string option \<Rightarrow> string option \<Rightarrow> string option \<Rightarrow> ApiKey \<Rightarrow> bool" where
  "other_filters tenant_id resource_type resource_name authorized_person k =
     (ak_tenant_id k = tenant_id
      \<and> (if truthy resource_type then ak_resource_type k = the resource_type else True)
      \<and> (if truthy resource_name then ilike (ak_resource_name k) (''%'' @ the resource_name @ ''%'') else True)
      \<and> (if truthy authorized_person
          then ilike (ak_authorized_person k) (''%'' @ the authorized_person @ ''%'') else True))"

definition api_key_example :: ApiKey where
  "api_key_example =
     \<lparr>ak_id = ''k1'', ak_tenant_id = ''t1'', ak_key = ''sk-1'', ak_resource_type = ''workflow'',
      ak_resource_id = ''w1'', ak_resource_name = ''Daily Report'', ak_validity_type = ''limited'',
      ak_start_date = Some 10, ak_end_date = Some 50, ak_authorized_person = ''Ann'',
      ak_description = [], ak_is_active = False, ak_created_by = ''u1'', ak_updated_by = ''u1'',
      ak_created_at = 10\<rparr>"

text \<open>The union of all pages of the listing: the keys the list operation shows.\<close>

definition listed ::
  "ApiKey list \<Rightarrow> int \<Rightarrow> string \<Rightarrow> int \<Rightarrow> string option \<Rightarrow> string option \<Rightarrow> string option
     \<Rightarrow> string option \<Rightarrow> ApiKey set" where
  "listed api_keys now tenant_id per_page resource_type resource_name authorized_person status =
     (\<Union>page. set (items (get_api_keys api_keys now tenant_id page per_page resource_type
                          resource_name authorized_person status)))"

text \<open>
  The \<open>App\<close> row (models/model.py, not among the sources): the fields this code reads.
\<close>

record App =
  app_id :: string
  app_tenant_id :: string
  app_name :: string
  app_mode :: string
  app_icon_type :: "string option"
  app_icon :: "string option"
  app_icon_background :: "string option"

text \<open>
  The functions class \<open>ApiKeyService\<close> defines, each with the number of parameters its
  \<open>def\<close> requires and the number it accepts. All of them are declared
  \<open>@staticmethod\<close>, so \<open>self.name(...)\<close> calls the plain function with exactly the
  arguments written: reading a name the class does not define raises
  \<open>AttributeError\<close>, and a call with the wrong number of arguments raises
  \<open>TypeError\<close>.
\<close>

definition ApiKeyService_methods :: "(string \<times> nat \<times> nat) list" where
  "ApiKeyService_methods =
     [(''create_api_key'', 6, 11),
      (''get_api_keys'', 1, 7),
      (''get_api_key'', 3, 3),
      (''get_api_key_by_key'', 2, 2),
      (''update_api_key'', 3, 3),
      (''delete_api_key'', 3, 3),
      (''toggle_api_key_status'', 3, 3),
      (''validate_api_key'', 2, 2),
      (''get_resources_for_selection'', 3, 3),
      (''log_api_key_usage'', 8, 10),
      (''_validate_resource_exists'', 4, 4),
      (''_generate_unique_key'', 1, 1)]"

definition call_method :: "string \<Rightarrow> nat \<Rightarrow> py_error + unit" where
  "call_method name nargs =
     (case map_of ApiKeyService_methods name of
        None \<Rightarrow> Inl (AttributeError name)
      | Some (required, accepted) \<Rightarrow>
          if required \<le> nargs \<and> nargs \<le> accepted then Inr () else Inl (TypeError name))"

text \<open>The body of \<open>_validate_resource_exists\<close> (lines 271 to 291).\<close>

definition validate_resource_exists :: "App list \<Rightarrow> string \<Rightarrow> string \<Rightarrow> string \<Rightarrow> py_error + unit" where
  "validate_resource_exists apps tenant_id resource_type resource_id =
     (if resource_type = ''agent'' then
        (case find (\<lambda>a. app_id a = resource_id \<and> app_tenant_id a = tenant_id \<and> app_mode a = ''agent-chat'') apps of
           None \<Rightarrow> Inl (InvalidResourceTypeError ''Agent not found'')
         | Some app \<Rightarrow> Inr ())
      else if resource_type = ''workflow'' then
        (case find (\<lambda>a. app_id a = resource_id \<and> app_tenant_id a = tenant_id \<and> app_mode a = ''workflow'') apps of
           None \<Rightarrow> Inl (InvalidResourceTypeError ''Workflow not found'')
         | Some app \<Rightarrow> Inr ())
      else Inr ())"

text \<open>
  The loop of \<open>_generate_unique_key\<close> (lines 296 to 303). \<open>generate_key i\<close> is the
  candidate the \<open>i\<close>-th call of \<open>ApiKey.generate_key()\<close> returns; the second number
  counts the attempts left of \<open>max_attempts = 10\<close>.
\<close>

fun try_keys :: "(nat \<Rightarrow> string) \<Rightarrow> ApiKey list \<Rightarrow> nat \<Rightarrow> nat \<Rightarrow> py_error + string" where
  "try_keys generate_key api_keys i 0 = Inl (DuplicateApiKeyError ''Failed to generate unique API key'')"
| "try_keys generate_key api_keys i (Suc n) =
     (let key = generate_key i in
      case find (\<lambda>k. ak_key k = key) api_keys of
        None \<Rightarrow> Inr key
      | Some existing \<Rightarrow> try_keys generate_key api_keys (Suc i) n)"

definition generate_unique_key :: "(nat \<Rightarrow> string) \<Rightarrow> ApiKey list \<Rightarrow> py_error + string" where
  "generate_unique_key generate_key api_keys = try_keys generate_key api_keys 0 10"

text \<open>The arguments of \<open>create_api_key\<close> after \<open>self\<close>.\<close>

record create_request =
  cr_tenant_id :: string
  cr_resource_type :: string
  cr_resource_id :: string
  cr_resource_name :: string
  cr_validity_type :: string
  cr_start_date :: "int option"
  cr_end_date :: "int option"
  cr_authorized_person :: string
  cr_description :: string
  cr_created_by :: string

text \<open>
  \<open>ApiKeyService.create_api_key\<close> (lines 24 to 63), statement by statement. \<open>self\<close> is
  the \<open>ApiKeyService\<close> instance the controller passes. \<open>new_id\<close> and \<open>now\<close> are the
  primary key and the creation time the database gives the row, \<open>current_user_id\<close> is
  \<open>current_user.id\<close>. The result is the store with the new row and the row itself.
\<close>

definition create_api_key ::
  "App list \<Rightarrow> ApiKey list \<Rightarrow> (nat \<Rightarrow> string) \<Rightarrow> string \<Rightarrow> int \<Rightarrow> string \<Rightarrow> create_request
     \<Rightarrow> py_error + (ApiKey list \<times> ApiKey)" where
  "create_api_key apps api_keys generate_key new_id now current_user_id req =
     (if cr_resource_type req \<notin> set [''agent-chat'', ''workflow'']
      then Inl (InvalidResourceTypeError (''Invalid resource type: '' @ cr_resource_type req))
      else
        case call_method ''_validate_resource_exist'' 3 of
          Inl e \<Rightarrow> Inl e
        | Inr u \<Rightarrow>
           (case validate_resource_exists apps (cr_tenant_id req) (cr_resource_type req) (cr_resource_id req) of
              Inl e \<Rightarrow> Inl e
            | Inr u \<Rightarrow>
               (case call_method ''_generate_unique_key'' 0 of
                  Inl e \<Rightarrow> Inl e
                | Inr u \<Rightarrow>
                   (case generate_unique_key generate_key api_keys of
                      Inl e \<Rightarrow> Inl e
                    | Inr key \<Rightarrow>
                       let creator = (if cr_created_by req \<noteq> [] then cr_created_by req else current_user_id);
                           api_key = \<lparr>ak_id = new_id, ak_tenant_id = cr_tenant_id req, ak_key = key,
                                      ak_resource_type = cr_resource_type req,
                                      ak_resource_id = cr_resource_id req,
                                      ak_resource_name = cr_resource_name req,
                                      ak_validity_type = cr_validity_type req,
                                      ak_start_date = cr_start_date req, ak_end_date = cr_end_date req,
                                      ak_authorized_person = cr_authorized_person req,
                                      ak_description = cr_description req, ak_is_active = True,
                                      ak_created_by = creator, ak_updated_by = creator,
                                      ak_created_at = now\<rparr>
                       in Inr (api_keys @ [api_key], api_key)))))"

definition create_request_example :: create_request where
  "create_request_example =
     \<lparr>cr_tenant_id = ''t1'', cr_resource_type = ''workflow'', cr_resource_id = ''w1'',
      cr_resource_name = ''Daily Report'', cr_validity_type = ''permanent'',
      cr_start_date = None, cr_end_date = None, cr_authorized_person = ''Ann'',
      cr_description = [], cr_created_by = ''u1''\<rparr>"

definition app_example :: App where
  "app_example =
     \<lparr>app_id = ''w1'', app_tenant_id = ''t1'', app_name = ''Daily Report'', app_mode = ''workflow'',
      app_icon_type = None, app_icon = None, app_icon_background = None\<rparr>"

section \<open>Publish to the square (controllers/console/app/publish.py)\<close>

subsection \<open>Values, rows and the store\<close>

text \<open>
  The two kinds of Python value that meet in the comparisons of this controller: a
  string, and an integer (a member of an \<open>IntEnum\<close> is an integer). \<open>==\<close> between a
  string and an integer is false, as equality of these constructors is.
\<close>

datatype pyval = PyStr string | PyInt int

text \<open>
  models/publish.py: \<open>ApplyAppType\<close> and \<open>NotificationMsgType\<close> are \<open>IntEnum\<close>s
  whose members are written with string literals (\<open>WORKFLOW = "1"\<close>); the member is the
  integer. \<open>str\<close> of a \<open>PublishApplicationStatus\<close> member is its number.
\<close>

definition ApplyAppType_WORKFLOW :: pyval where "ApplyAppType_WORKFLOW = PyInt 1"
definition ApplyAppType_AGENT :: pyval where "ApplyAppType_AGENT = PyInt 2"

definition APPLYING :: int where "APPLYING = 1"
definition COMPLETED :: int where "COMPLETED = 4"
definition REJECTED :: int where "REJECTED = 5"

definition APPROVAL_TODO :: int where "APPROVAL_TODO = 2"
definition APPROVAL_RESULT :: int where "APPROVAL_RESULT = 3"

definition str_of_status :: "int \<Rightarrow> string" where
  "str_of_status n = (if n = 1 then ''1'' else if n = 2 then ''2'' else if n = 3 then ''3''
                      else if n = 4 then ''4'' else ''5'')"

text \<open>
  What the database stores in an \<open>Integer\<close> column for a bound value: an integer as it
  is, a string when it is a decimal numeral with an optional sign (the database casts
  it), and otherwise the insert fails.
\<close>

fun digits_value :: "nat \<Rightarrow> string \<Rightarrow> nat option" where
  "digits_value acc [] = Some acc"
| "digits_value acc (c # cs) =
     (let n = (of_char c :: nat) in
      if 48 \<le> n \<and> n \<le> 57 then digits_value (10 * acc + (n - 48)) cs else None)"

definition integer_column :: "pyval \<Rightarrow> py_error + int" where
  "integer_column v =
     (case v of
        PyInt n \<Rightarrow> Inr n
      | PyStr s \<Rightarrow>
          (case s of
             [] \<Rightarrow> Inl (DataError ''invalid input syntax for type integer'')
           | c # cs \<Rightarrow>
               if (c = CHR ''-'' \<or> c = CHR ''+'') \<and> cs \<noteq> [] then
                 (case digits_value 0 cs of
                    None \<Rightarrow> Inl (DataError ''invalid input syntax for type integer'')
                  | Some n \<Rightarrow> Inr (if c = CHR ''-'' then - int n else int n))
               else
                 (case digits_value 0 (c # cs) of
                    None \<Rightarrow> Inl (DataError ''invalid input syntax for type integer'')
                  | Some n \<Rightarrow> Inr (int n))))"

text \<open>
  The rows. Columns the code never sets (they stay NULL) and the time stamps are left
  out. \<open>Workflow\<close> and \<open>AppModelConfig\<close> (models/workflow.py, models/model.py) are not
  among the sources: they have the fields this controller reads. The twenty-two
  configuration columns that approval copies from an \<open>AppModelConfig\<close> to its snapshot
  one by one (\<open>provider\<close> to \<open>file_upload\<close>) are the one field \<open>configuration\<close>.
\<close>

record PublishApplication =
  pa_id :: string
  pa_applicant_id :: string
  pa_tenant_id :: "string option"
  pa_status :: int
  pa_need_sys_approve :: "bool option"
  pa_apply_app_id :: string
  pa_apply_app_version_id :: string
  pa_apply_app_type :: int
  pa_created_by :: string
  pa_updated_by :: string

record PublishApplicationHistory =
  h_id :: string
  h_application_id :: string
  h_tenant_id :: "string option"
  h_action :: string
  h_operator_id :: string
  h_operator_role :: string
  h_from_status :: "string option"
  h_to_status :: string
  h_reason :: string

record SystemNotification =
  n_id :: string
  n_tenant_id :: "string option"
  n_title :: string
  n_content :: string
  n_msg_type :: int
  n_account_id :: "string list option"
  n_role :: "string list option"
  n_is_deal :: bool
  n_application_id :: "string option"
  n_created_by :: "string option"
  n_updated_by :: "string option"

record Workflow =
  wf_id :: string
  wf_tenant_id :: string
  wf_app_id :: string
  wf_type :: string
  wf_version :: string
  wf_marked_name :: string
  wf_marked_comment :: string
  wf_graph :: string
  wf_features :: string
  wf_publish_square :: bool

record PublishWorkflow =
  pw_id :: string
  pw_app_id :: string
  pw_tenant_id :: string
  pw_type :: string
  pw_version :: string
  pw_marked_name :: string
  pw_marked_comment :: string
  pw_graph :: string
  pw_features :: string
  pw_created_by :: string
  pw_updated_by :: string
  pw_icon_type :: "string option"
  pw_icon :: "string option"
  pw_icon_background :: "string option"
  pw_enable :: bool
  pw_workflow_id :: string

record AppModelConfig =
  amc_id :: string
  amc_app_id :: string
  amc_configuration :: string
  amc_marked_name :: string
  amc_marked_comment :: string
  amc_publish_square :: bool

record PublishAppModelConfig =
  pc_id :: string
  pc_app_id :: string
  pc_tenant_id :: string
  pc_configuration :: string
  pc_created_by :: string
  pc_updated_by :: string
  pc_icon_type :: "string option"
  pc_icon :: "string option"
  pc_icon_background :: "string option"
  pc_enable :: bool
  pc_app_model_config_id :: string
  pc_marked_name :: string
  pc_marked_comment :: string

record publish_db =
  applications :: "PublishApplication list"
  histories :: "PublishApplicationHistory list"
  notifications :: "SystemNotification list"
  publish_workflows :: "PublishWorkflow list"
  publish_app_model_configs :: "PublishAppModelConfig list"
  workflows :: "Workflow list"
  app_model_configs :: "AppModelConfig list"
  apps :: "App list"

text \<open>\<open>current_user\<close>: whether it is an \<open>Account\<close>, its id, \<open>is_editor\<close>, its tenant.\<close>

record current_user =
  cu_is_account :: bool
  cu_id :: string
  cu_is_editor :: bool
  cu_current_tenant_id :: string

text \<open>The JSON body an endpoint returns: \<open>result\<close> and, where given, \<open>message\<close>.\<close>

record response =
  resp_result :: string
  resp_message :: "string option"

subsection \<open>Collaborators that are not among the sources\<close>

text \<open>
  Modelled from the spec: \<open>WorkflowService.get_published_workflow_by_id\<close>
  (services/workflow\_service.py), \<open>AppModelConfigService.get_published_agent_by_id\<close>
  and \<open>_load_app_model\<close> (controllers/console/app/wraps.py) are missing. The spec says
  the endpoints validate ``that the referenced workflow or agent version still exists''
  and that approval ``loads the target app'': each is the lookup of the row by its id, the
  version among those of the app.
\<close>

definition get_published_workflow_by_id :: "publish_db \<Rightarrow> App \<Rightarrow> string \<Rightarrow> Workflow option" where
  "get_published_workflow_by_id db app_model workflow_id =
     find (\<lambda>w. wf_id w = workflow_id \<and> wf_app_id w = app_id app_model) (workflows db)"

definition get_published_agent_by_id :: "publish_db \<Rightarrow> App \<Rightarrow> string \<Rightarrow> AppModelConfig option" where
  "get_published_agent_by_id db app_model agent_id =
     find (\<lambda>c. amc_id c = agent_id \<and> amc_app_id c = app_id app_model) (app_model_configs db)"

definition load_app_model :: "publish_db \<Rightarrow> string \<Rightarrow> App option" where
  "load_app_model db aid = find (\<lambda>a. app_id a = aid) (apps db)"

subsection \<open>services/publish\_application\_service.py\<close>

text \<open>
  \<open>PublishApplicationService\<close>. Each function that adds a row takes the primary key the
  database generates for it. \<open>create\<close> flushes, so the insert and its cast of
  \<open>apply_app_type\<close> happen inside it.
\<close>

definition create ::
  "publish_db \<Rightarrow> string \<Rightarrow> current_user \<Rightarrow> int \<Rightarrow> string \<Rightarrow> string \<Rightarrow> pyval \<Rightarrow> string option
     \<Rightarrow> bool option \<Rightarrow> py_error + (publish_db \<times> PublishApplication)" where
  "create db new_id account status apply_app_id apply_app_version_id apply_app_type tenant_id
      need_sys_approve =
     (if \<not> (1 \<le> status \<and> status \<le> 5) then Inl (ValueError ''invalid status'')
      else
        case integer_column apply_app_type of
          Inl e \<Rightarrow> Inl e
        | Inr app_type \<Rightarrow>
            let application =
                  \<lparr>pa_id = new_id, pa_applicant_id = cu_id account, pa_tenant_id = tenant_id,
                   pa_status = status, pa_need_sys_approve = need_sys_approve,
                   pa_apply_app_id = apply_app_id,
                   pa_apply_app_version_id = apply_app_version_id,
                   pa_apply_app_type = app_type,
                   pa_created_by = cu_id account, pa_updated_by = cu_id account\<rparr>
            in Inr (db\<lparr>applications := applications db @ [application]\<rparr>, application))"

definition get_by_id :: "publish_db \<Rightarrow> string \<Rightarrow> PublishApplication option" where
  "get_by_id db application_id = find (\<lambda>a. pa_id a = application_id) (applications db)"

text \<open>\<open>update\<close> with the one field the controller passes, \<open>status\<close>.\<close>

definition update_status :: "publish_db \<Rightarrow> string \<Rightarrow> int \<Rightarrow> py_error + (publish_db \<times> PublishApplication)" where
  "update_status db application_id status =
     (case get_by_id db application_id of
        None \<Rightarrow> Inl (ValueError ''publish_application not found'')
      | Some application \<Rightarrow>
          Inr (db\<lparr>applications :=
                     map (\<lambda>a. if pa_id a = application_id then a\<lparr>pa_status := status\<rparr> else a)
                       (applications db)\<rparr>,
               application\<lparr>pa_status := status\<rparr>))"

definition add_history ::
  "publish_db \<Rightarrow> string \<Rightarrow> string \<Rightarrow> string option \<Rightarrow> string \<Rightarrow> string \<Rightarrow> string \<Rightarrow> string option
     \<Rightarrow> string \<Rightarrow> string option \<Rightarrow> publish_db" where
  "add_history db new_id application_id tenant_id action operator_id operator_role from_status
      to_status reason =
     db\<lparr>histories := histories db @
          [\<lparr>h_id = new_id, h_application_id = application_id, h_tenant_id = tenant_id,
            h_action = action, h_operator_id = operator_id, h_operator_role = operator_role,
            h_from_status = from_status, h_to_status = to_status,
            h_reason = (if truthy reason then the reason else [])\<rparr>]\<rparr>"

text \<open>
  \<open>create_notification\<close>: \<open>created_by\<close> is never passed, so \<open>created_by\<close> and
  \<open>updated_by\<close> are the first account id when \<open>account_id\<close> is a non-empty list, and
  \<open>None\<close> otherwise.
\<close>

definition create_notification ::
  "publish_db \<Rightarrow> string \<Rightarrow> string list option \<Rightarrow> string list option \<Rightarrow> int \<Rightarrow> string option
     \<Rightarrow> string \<Rightarrow> string \<Rightarrow> string option \<Rightarrow> bool \<Rightarrow> publish_db" where
  "create_notification db new_id account_ids role msg_type tenant_id ntitle content application_id
      is_deal =
     (let creator = (case account_ids of None \<Rightarrow> None | Some [] \<Rightarrow> None | Some (a # as) \<Rightarrow> Some a)
      in db\<lparr>notifications := notifications db @
              [\<lparr>n_id = new_id, n_tenant_id = tenant_id, n_title = ntitle, n_content = content,
                n_msg_type = msg_type, n_account_id = account_ids, n_role = role,
                n_is_deal = is_deal, n_application_id = application_id,
                n_created_by = creator, n_updated_by = creator\<rparr>]\<rparr>)"

definition get_notification :: "publish_db \<Rightarrow> string \<Rightarrow> SystemNotification option" where
  "get_notification db notification_id = find (\<lambda>n. n_id n = notification_id) (notifications db)"

subsection \<open>The submit endpoint\<close>

text \<open>
  The parsed arguments of \<open>Published2SquareApi.post\<close>. The parser declares
  \<open>apply_app_type\<close> with \<open>type=str\<close>, so the value is a string whatever the JSON
  held; \<open>tenant_id\<close> defaults to the empty string.
\<close>

record submit_args =
  sa_apply_app_type :: string
  sa_need_sys_approve :: "bool option"
  sa_selected_workflow_agent_id :: string
  sa_tenant_id :: string

definition version_deleted :: response where
  "version_deleted = \<lparr>resp_result = ''fail'', resp_message = Some ''the selected version has been deleted''\<rparr>"

text \<open>
  \<open>Published2SquareApi.post\<close> (lines 36 to 125). \<open>app_model\<close> is the app the
  \<open>get_app_model\<close> decorator loaded; \<open>ids i\<close> is the \<open>i\<close>-th primary key the
  database generates during the request. The result is the store as committed and what
  the handler returns or raises; the three writes are committed together, so an exception
  leaves the store as it was. \<open>args.get("reason")\<close> is \<open>None\<close>: the parser has no
  such argument.
\<close>

definition Published2SquareApi_post ::
  "publish_db \<Rightarrow> current_user \<Rightarrow> App \<Rightarrow> submit_args \<Rightarrow> (nat \<Rightarrow> string) \<Rightarrow> publish_db \<times> (py_error + response)" where
  "Published2SquareApi_post db cu app_model args ids =
     (if \<not> cu_is_account cu then (db, Inl Forbidden)
      else if \<not> cu_is_editor cu then (db, Inl Forbidden)
      else
        let selected_workflow_agent_id = sa_selected_workflow_agent_id args;
            apply_app_type = PyStr (sa_apply_app_type args)
        in
        if apply_app_type = ApplyAppType_WORKFLOW
           \<and> get_published_workflow_by_id db app_model selected_workflow_agent_id = None
        then (db, Inr version_deleted)
        else if apply_app_type = ApplyAppType_AGENT
           \<and> get_published_agent_by_id db app_model selected_workflow_agent_id = None
        then (db, Inr version_deleted)
        else
          case create db (ids 0) cu APPLYING (app_id app_model) selected_workflow_agent_id
                 apply_app_type (Some (sa_tenant_id args)) (sa_need_sys_approve args) of
            Inl e \<Rightarrow> (db, Inl e)
          | Inr (db1, application) \<Rightarrow>
              let db2 = add_history db1 (ids 1) (pa_id application) (Some (sa_tenant_id args))
                          ''SUBMIT'' (cu_id cu) ''admin'' None (str_of_status APPLYING) None;
                  db3 = create_notification db2 (ids 2) None (Some [''admin'', ''owner''])
                          APPROVAL_TODO (Some (sa_tenant_id args))
                          ''Publish to Square approval request''
                          (''Publish to Square approval request, application id: '' @ pa_id application)
                          (Some (pa_id application)) False
              in (db3, Inr \<lparr>resp_result = ''success'', resp_message = None\<rparr>))"

subsection \<open>The approval endpoint\<close>

record approve_args =
  aa_id :: string
  aa_application_id :: string
  aa_approve :: bool
  aa_reason :: "string option"

definition operation_succeeded :: response where
  "operation_succeeded = \<lparr>resp_result = ''success'', resp_message = Some ''operation succeeded''\<rparr>"

definition application_missing :: response where
  "application_missing = \<lparr>resp_result = ''fail'', resp_message = Some ''the application does not exist''\<rparr>"

text \<open>The failure notification of lines 164 to 173, committed at once.\<close>

definition notify_missing :: "publish_db \<Rightarrow> current_user \<Rightarrow> approve_args \<Rightarrow> (nat \<Rightarrow> string) \<Rightarrow> publish_db" where
  "notify_missing db cu args ids =
     create_notification db (ids 0) None (Some [''admin'', ''owner'']) APPROVAL_RESULT
       (Some (cu_current_tenant_id cu)) ''Publish to Square approval failed''
       (''Publish to Square approval failed, application id: '' @ aa_application_id args
          @ '', reason: the application does not exist'')
       None False"

definition notify_version_deleted ::
  "publish_db \<Rightarrow> current_user \<Rightarrow> approve_args \<Rightarrow> (nat \<Rightarrow> string) \<Rightarrow> PublishApplication \<Rightarrow> publish_db" where
  "notify_version_deleted db cu args ids application =
     create_notification db (ids 0) (Some [pa_applicant_id application]) None APPROVAL_RESULT
       (Some (cu_current_tenant_id cu)) ''Publish to Square approval failed''
       (''Publish to Square approval failed, application id: '' @ aa_application_id args
          @ '', reason: the selected version has been deleted'')
       None False"

text \<open>
  Lines 199 to 247: the check that the version still exists. The result is the store, the
  variables \<open>workflow\<close> and \<open>agent\<close> (\<open>None\<close> while unbound) and \<open>msg\<close>. The
  missing helpers read \<open>app_model\<close>, so an app that did not load raises there.
\<close>

definition check_version ::
  "publish_db \<Rightarrow> current_user \<Rightarrow> approve_args \<Rightarrow> (nat \<Rightarrow> string) \<Rightarrow> PublishApplication \<Rightarrow> App option
     \<Rightarrow> py_error + (publish_db \<times> Workflow option \<times> AppModelConfig option \<times> response option)" where
  "check_version db cu args ids application app_model =
     (if PyInt (pa_apply_app_type application) = ApplyAppType_WORKFLOW then
        (case app_model of
           None \<Rightarrow> Inl (AttributeError ''NoneType object has no attribute id'')
         | Some a \<Rightarrow>
             (case get_published_workflow_by_id db a (pa_apply_app_version_id application) of
                None \<Rightarrow> Inr (notify_version_deleted db cu args ids application, None, None,
                               Some version_deleted)
              | Some w \<Rightarrow> Inr (db, Some w, None, None)))
      else if PyInt (pa_apply_app_type application) = ApplyAppType_AGENT then
        (case app_model of
           None \<Rightarrow> Inl (AttributeError ''NoneType object has no attribute id'')
         | Some a \<Rightarrow>
             (case get_published_agent_by_id db a (pa_apply_app_version_id application) of
                None \<Rightarrow> Inr (notify_version_deleted db cu args ids application, None, None,
                               Some version_deleted)
              | Some c \<Rightarrow> Inr (db, None, Some c, None)))
      else Inr (db, None, None, None))"

text \<open>The snapshot rows of lines 288 to 304 and 310 to 344.\<close>

definition snapshot_workflow :: "string \<Rightarrow> App \<Rightarrow> Workflow \<Rightarrow> PublishApplication \<Rightarrow> PublishWorkflow" where
  "snapshot_workflow new_id a w application =
     \<lparr>pw_id = new_id, pw_app_id = app_id a, pw_tenant_id = wf_tenant_id w, pw_type = wf_type w,
      pw_version = wf_version w,
      pw_marked_name = (if wf_marked_name w \<noteq> [] then app_name a @ ''_'' @ wf_marked_name w
                        else app_name a),
      pw_marked_comment = wf_marked_comment w, pw_graph = wf_graph w, pw_features = wf_features w,
      pw_created_by = pa_created_by application, pw_updated_by = pa_updated_by application,
      pw_icon_type = app_icon_type a, pw_icon = app_icon a,
      pw_icon_background = app_icon_background a, pw_enable = True,
      pw_workflow_id = pa_apply_app_version_id application\<rparr>"

definition snapshot_agent :: "string \<Rightarrow> App \<Rightarrow> AppModelConfig \<Rightarrow> PublishApplication \<Rightarrow> PublishAppModelConfig" where
  "snapshot_agent new_id a c application =
     \<lparr>pc_id = new_id, pc_app_id = app_id a, pc_tenant_id = app_tenant_id a,
      pc_configuration = amc_configuration c,
      pc_created_by = pa_created_by application, pc_updated_by = pa_created_by application,
      pc_icon_type = app_icon_type a, pc_icon = app_icon a,
      pc_icon_background = app_icon_background a, pc_enable = True,
      pc_app_model_config_id = pa_apply_app_version_id application,
      pc_marked_name = (if amc_marked_name c \<noteq> [] then app_name a @ ''_'' @ amc_marked_name c
                        else app_name a),
      pc_marked_comment = amc_marked_comment c\<rparr>"

text \<open>
  Lines 252 to 352, the branch \<open>approve and msg is None\<close>. Everything is committed at
  the end, so an exception leaves the store as it was.
\<close>

definition approve_branch ::
  "publish_db \<Rightarrow> current_user \<Rightarrow> approve_args \<Rightarrow> (nat \<Rightarrow> string) \<Rightarrow> App option \<Rightarrow> Workflow option
     \<Rightarrow> AppModelConfig option \<Rightarrow> publish_db \<times> (py_error + response)" where
  "approve_branch db cu args ids app_model workflow agent =
     (case update_status db (aa_application_id args) COMPLETED of
        Inl e \<Rightarrow> (db, Inl e)
      | Inr (db1, application) \<Rightarrow>
          let db2 = add_history db1 (ids 1) (aa_application_id args) (pa_tenant_id application)
                      ''APPROVE'' (cu_id cu) ''admin'' None (str_of_status COMPLETED) (aa_reason args);
              db3 = create_notification db2 (ids 2) (Some [pa_applicant_id application]) None
                      APPROVAL_RESULT (pa_tenant_id application)
                      ''Publish to Square approved''
                      (''Publish to Square approved, application id: '' @ aa_application_id args)
                      None False
          in
          if PyInt (pa_apply_app_type application) = ApplyAppType_WORKFLOW then
            (case (app_model, workflow) of
               (Some a, Some w) \<Rightarrow>
                 let publish_workflow = snapshot_workflow (ids 3) a w application;
                     db4 = db3\<lparr>publish_workflows := publish_workflows db3 @ [publish_workflow]\<rparr>;
                     db5 = db4\<lparr>workflows :=
                                 map (\<lambda>x. if wf_id x = pw_workflow_id publish_workflow
                                           then x\<lparr>wf_publish_square := True\<rparr> else x)
                                   (workflows db4)\<rparr>
                 in (db5, Inr operation_succeeded)
             | (None, w) \<Rightarrow> (db, Inl (AttributeError ''NoneType object has no attribute id''))
             | (Some a, None) \<Rightarrow> (db, Inl (NameError ''workflow'')))
          else if PyInt (pa_apply_app_type application) = ApplyAppType_AGENT then
            (case (app_model, agent) of
               (Some a, Some c) \<Rightarrow>
                 let publish_app_model_config = snapshot_agent (ids 3) a c application;
                     db4 = db3\<lparr>publish_app_model_configs :=
                                 publish_app_model_configs db3 @ [publish_app_model_config]\<rparr>;
                     db5 = db4\<lparr>app_model_configs :=
                                 map (\<lambda>x. if amc_id x = pc_app_model_config_id publish_app_model_config
                                           then x\<lparr>amc_publish_square := True\<rparr> else x)
                                   (app_model_configs db4)\<rparr>
                 in (db5, Inr operation_succeeded)
             | (None, c) \<Rightarrow> (db, Inl (AttributeError ''NoneType object has no attribute id''))
             | (Some a, None) \<Rightarrow> (db, Inl (NameError ''agent'')))
          else (db3, Inr operation_succeeded))"

text \<open>
  Lines 354 to 388, the branch \<open>not approve and msg is None\<close>. It reads
  \<open>workflow.tenant_id\<close>, so it raises when \<open>workflow\<close> is unbound.
\<close>

definition reject_branch ::
  "publish_db \<Rightarrow> current_user \<Rightarrow> approve_args \<Rightarrow> (nat \<Rightarrow> string) \<Rightarrow> PublishApplication
     \<Rightarrow> Workflow option \<Rightarrow> publish_db \<times> (py_error + response)" where
  "reject_branch db cu args ids application workflow =
     (case update_status db (aa_application_id args) REJECTED of
        Inl e \<Rightarrow> (db, Inl e)
      | Inr (db1, updated) \<Rightarrow>
          (case workflow of
             None \<Rightarrow> (db, Inl (NameError ''workflow''))
           | Some w \<Rightarrow>
               let db2 = add_history db1 (ids 1) (aa_application_id args) (Some (wf_tenant_id w))
                           ''REJECT'' (cu_id cu) ''admin'' None (str_of_status REJECTED) (aa_reason args);
                   db3 = create_notification db2 (ids 2) (Some [pa_applicant_id application]) None
                           APPROVAL_RESULT (Some (wf_tenant_id w))
                           ''Publish to Square rejected''
                           (''Publish to Square rejected, application id: '' @ aa_application_id args)
                           None False
               in (db3, Inr operation_succeeded)))"

text \<open>Lines 390 to 397: the notification named by \<open>id\<close> is marked as dealt with.\<close>

definition mark_dealt :: "publish_db \<Rightarrow> current_user \<Rightarrow> string \<Rightarrow> publish_db" where
  "mark_dealt db cu nid =
     (if nid = [] then db
      else
        case get_notification db nid of
          None \<Rightarrow> db
        | Some notification \<Rightarrow>
            db\<lparr>notifications :=
                 map (\<lambda>n. if n_id n = nid
                           then n\<lparr>n_is_deal := True,
                                  n_updated_by := (if cu_id cu \<noteq> [] then Some (cu_id cu)
                                                   else n_updated_by n)\<rparr>
                           else n)
                   (notifications db)\<rparr>)"

text \<open>
  \<open>Published2SquareSysApproveApi.post\<close> (lines 135 to 399). When the application is
  missing, lines 162 to 177 commit the notification and set \<open>msg\<close>; the next statement,
  line 179, reads \<open>application.apply_app_id\<close> and raises on \<open>None\<close>. The second block
  guarded by \<open>application is None\<close> (lines 182 to 197) can then never run.
\<close>

definition Published2SquareSysApproveApi_post ::
  "publish_db \<Rightarrow> current_user \<Rightarrow> approve_args \<Rightarrow> (nat \<Rightarrow> string) \<Rightarrow> publish_db \<times> (py_error + response)" where
  "Published2SquareSysApproveApi_post db cu args ids =
     (if \<not> cu_is_account cu then (db, Inl Forbidden)
      else if \<not> cu_is_editor cu then (db, Inl Forbidden)
      else
        case get_by_id db (aa_application_id args) of
          None \<Rightarrow>
            (notify_missing db cu args ids,
             Inl (AttributeError ''NoneType object has no attribute apply_app_id''))
        | Some application \<Rightarrow>
            let app_model = load_app_model db (pa_apply_app_id application) in
            case check_version db cu args ids application app_model of
              Inl e \<Rightarrow> (db, Inl e)
            | Inr (db1, workflow, agent, msg) \<Rightarrow>
                (case (case msg of
                         Some m \<Rightarrow> (db1, Inr m)
                       | None \<Rightarrow>
                           if aa_approve args
                           then approve_branch db1 cu args ids app_model workflow agent
                           else reject_branch db1 cu args ids application workflow) of
                   (db2, Inl e) \<Rightarrow> (db2, Inl e)
                 | (db2, Inr r) \<Rightarrow> (mark_dealt db2 cu (aa_id args), Inr r)))"

subsection \<open>A sample store\<close>

definition editor :: current_user where
  "editor = \<lparr>cu_is_account = True, cu_id = ''u1'', cu_is_editor = True, cu_current_tenant_id = ''t1''\<rparr>"

definition reviewer :: current_user where
  "reviewer = \<lparr>cu_is_account = True, cu_id = ''u2'', cu_is_editor = True, cu_current_tenant_id = ''t1''\<rparr>"

definition example_ids :: "nat \<Rightarrow> string" where
  "example_ids i = (if i = 0 then ''id0'' else if i = 1 then ''id1'' else if i = 2 then ''id2'' else ''id3'')"

definition example_workflow :: Workflow where
  "example_workflow =
     \<lparr>wf_id = ''v1'', wf_tenant_id = ''t1'', wf_app_id = ''w1'', wf_type = ''workflow'',
      wf_version = ''2025-01-01'', wf_marked_name = ''first'', wf_marked_comment = [],
      wf_graph = ''{}'', wf_features = ''{}'', wf_publish_square = False\<rparr>"

definition example_store :: publish_db where
  "example_store =
     \<lparr>applications = [], histories = [], notifications = [], publish_workflows = [],
      publish_app_model_configs = [], workflows = [example_workflow], app_model_configs = [],
      apps = [app_example]\<rparr>"

text \<open>The store after a submit that passes the checks.\<close>

definition submitted_application :: "current_user \<Rightarrow> App \<Rightarrow> submit_args \<Rightarrow> (nat \<Rightarrow> string) \<Rightarrow> int \<Rightarrow> PublishApplication" where
  "submitted_application cu app_model args ids app_type =
     \<lparr>pa_id = ids 0, pa_applicant_id = cu_id cu, pa_tenant_id = Some (sa_tenant_id args),
      pa_status = APPLYING, pa_need_sys_approve = sa_need_sys_approve args,
      pa_apply_app_id = app_id app_model,
      pa_apply_app_version_id = sa_selected_workflow_agent_id args,
      pa_apply_app_type = app_type, pa_created_by = cu_id cu, pa_updated_by = cu_id cu\<rparr>"

text \<open>What \<open>mark_dealt\<close> does to one notification.\<close>

definition dealt :: "current_user \<Rightarrow> string \<Rightarrow> SystemNotification \<Rightarrow> SystemNotification" where
  "dealt cu nid n =
     (if nid \<noteq> [] \<and> n_id n = nid
      then n\<lparr>n_is_deal := True,
             n_updated_by := (if cu_id cu \<noteq> [] then Some (cu_id cu) else n_updated_by n)\<rparr>
      else n)"

definition approval_ids :: "nat \<Rightarrow> string" where
  "approval_ids i = (if i = 0 then ''id4'' else if i = 1 then ''id5'' else if i = 2 then ''id6'' else ''id7'')"

definition submit_example :: submit_args where
  "submit_example = \<lparr>sa_apply_app_type = ''1'', sa_need_sys_approve = None,
                      sa_selected_workflow_agent_id = ''v1'', sa_tenant_id = ''t1''\<rparr>"

definition approve_example :: approve_args where
  "approve_example = \<lparr>aa_id = ''id2'', aa_application_id = example_ids 0, aa_approve = True,
                       aa_reason = None\<rparr>"

section \<open>Passport service (libs/passport.py)\<close>





text \<open>The two attributes \<open>__init__\<close> sets.\<close>

record PassportService =
  sk :: string
  encryption_key :: string












section \<open>RAG workflow node (core/workflow/nodes/rag)\<close>

subsection \<open>Variable extraction\<close>











subsection \<open>Response parsing and the run result\<close>

text \<open>
  The response models of entities.py. Validation of a field follows its declared type:
  a \<open>str\<close> field takes a JSON string, an \<open>Optional[str]\<close> field a string or null, a
  list field an array of objects that validate; an absent field takes its default, and
  an absent field without default fails. \<open>None\<close> is the \<open>ValidationError\<close>.
\<close>

record ContextItem =
  ci_doc_name :: "string option"
  ci_text :: "string option"
  ci_img_url :: "string option"
  ci_url :: "string option"

record ResponseTag =
  rt_province_tag :: string
  rt_scene_tag :: string
  rt_specialty_tag :: string

record RagResponseData =
  rd_context :: "ContextItem list"
  rd_query :: string
  rd_tag :: "ResponseTag list"

record RagResponse =
  rr_code :: string
  rr_data :: "RagResponseData option"
  rr_msg :: string
  rr_status :: string

definition str_field :: "(string \<times> json) list \<Rightarrow> string \<Rightarrow> string option \<Rightarrow> string option" where
  "str_field kvs name dflt =
     (case obj_get kvs name of
        None \<Rightarrow> dflt
      | Some (JStr s) \<Rightarrow> Some s
      | Some other \<Rightarrow> None)"

definition opt_str_field :: "(string \<times> json) list \<Rightarrow> string \<Rightarrow> string option option" where
  "opt_str_field kvs name =
     (case obj_get kvs name of
        None \<Rightarrow> Some (Some [])
      | Some JNull \<Rightarrow> Some None
      | Some (JStr s) \<Rightarrow> Some (Some s)
      | Some other \<Rightarrow> None)"

definition validate_ContextItem :: "json \<Rightarrow> ContextItem option" where
  "validate_ContextItem j =
     (case j of
        JObj kvs \<Rightarrow>
          (case (opt_str_field kvs ''doc_name'', opt_str_field kvs ''text'',
                 opt_str_field kvs ''img_url'', opt_str_field kvs ''url'') of
             (Some a, Some b, Some c, Some d) \<Rightarrow>
               Some \<lparr>ci_doc_name = a, ci_text = b, ci_img_url = c, ci_url = d\<rparr>
           | other \<Rightarrow> None)
      | other \<Rightarrow> None)"

definition validate_ResponseTag :: "json \<Rightarrow> ResponseTag option" where
  "validate_ResponseTag j =
     (case j of
        JObj kvs \<Rightarrow>
          (case (str_field kvs ''province_tag'' None, str_field kvs ''scene_tag'' None,
                 str_field kvs ''specialty_tag'' None) of
             (Some a, Some b, Some c) \<Rightarrow>
               Some \<lparr>rt_province_tag = a, rt_scene_tag = b, rt_specialty_tag = c\<rparr>
           | other \<Rightarrow> None)
      | other \<Rightarrow> None)"

text \<open>All elements validate, or the list does not.\<close>

fun validate_all :: "(json \<Rightarrow> 'a option) \<Rightarrow> json list \<Rightarrow> 'a list option" where
  "validate_all v [] = Some []"
| "validate_all v (j # js) =
     (case v j of
        None \<Rightarrow> None
      | Some x \<Rightarrow> (case validate_all v js of None \<Rightarrow> None | Some xs \<Rightarrow> Some (x # xs)))"

definition list_field :: "(json \<Rightarrow> 'a option) \<Rightarrow> (string \<times> json) list \<Rightarrow> string \<Rightarrow> 'a list option" where
  "list_field v kvs name =
     (case obj_get kvs name of
        None \<Rightarrow> Some []
      | Some (JArr js) \<Rightarrow> validate_all v js
      | Some other \<Rightarrow> None)"

definition validate_RagResponseData :: "json \<Rightarrow> RagResponseData option" where
  "validate_RagResponseData j =
     (case j of
        JObj kvs \<Rightarrow>
          (case (list_field validate_ContextItem kvs ''context'', str_field kvs ''query'' (Some []),
                 list_field validate_ResponseTag kvs ''tag'') of
             (Some c, Some q, Some t) \<Rightarrow> Some \<lparr>rd_context = c, rd_query = q, rd_tag = t\<rparr>
           | other \<Rightarrow> None)
      | other \<Rightarrow> None)"

definition data_field :: "(string \<times> json) list \<Rightarrow> RagResponseData option option" where
  "data_field kvs =
     (case obj_get kvs ''data'' of
        None \<Rightarrow> Some None
      | Some JNull \<Rightarrow> Some None
      | Some j \<Rightarrow> (case validate_RagResponseData j of None \<Rightarrow> None | Some d \<Rightarrow> Some (Some d)))"

text \<open>\<open>RagResponse(**response_data)\<close> for a dict \<open>response_data\<close>.\<close>

definition validate_RagResponse :: "(string \<times> json) list \<Rightarrow> RagResponse option" where
  "validate_RagResponse kvs =
     (case (str_field kvs ''code'' (Some []), data_field kvs, str_field kvs ''msg'' (Some []),
            str_field kvs ''status'' (Some [])) of
        (Some c, Some d, Some m, Some s) \<Rightarrow>
          Some \<lparr>rr_code = c, rr_data = d, rr_msg = m, rr_status = s\<rparr>
      | other \<Rightarrow> None)"

text \<open>
  What \<open>client.post\<close> comes to: a transport failure (an \<open>httpx.HTTPError\<close>), or a
  response with its status code and its body, \<open>None\<close> when the body is not JSON (then
  \<open>response.json()\<close> raises a \<open>ValueError\<close>).
\<close>

datatype http_outcome =
    TransportFailure string
  | HttpResponse nat "json option"

text \<open>
  \<open>RagNode._send_rag_request\<close> (lines 209 to 224). \<open>raise_for_status\<close> raises an
  \<open>httpx.HTTPError\<close> outside 2xx. \<open>**response_data\<close> raises \<open>TypeError\<close> when the
  decoded body is not an object; neither \<open>except\<close> clause catches it.
\<close>

definition send_rag_request :: "http_outcome \<Rightarrow> py_error + RagResponse" where
  "send_rag_request outcome =
     (case outcome of
        TransportFailure m \<Rightarrow> Inl (RagRequestError (''HTTP request failed: '' @ m))
      | HttpResponse status_code body \<Rightarrow>
          if \<not> (200 \<le> status_code \<and> status_code < 300)
          then Inl (RagRequestError ''HTTP request failed: status'')
          else
            (case body of
               None \<Rightarrow> Inl (RagResponseError ''Failed to parse response'')
             | Some (JObj kvs) \<Rightarrow>
                 (case validate_RagResponse kvs of
                    None \<Rightarrow> Inl (RagResponseError ''Failed to parse response'')
                  | Some r \<Rightarrow> Inr r)
             | Some other \<Rightarrow> Inl (TypeError ''argument after ** must be a mapping'')))"











section \<open>Menu service (services/menu\_service.py)\<close>

text \<open>
  A value used as a menu id: a \<open>str\<close>, or a \<open>uuid.UUID\<close> object, given by its
  canonical text. Python's \<open>==\<close> between a \<open>str\<close> and a \<open>uuid.UUID\<close> is false, and
  between two values of the same class it compares the texts: it is the equality of
  this type.
\<close>

datatype pykey = StrKey string | UuidKey string

text \<open>\<open>str(value)\<close>, which the column type \<open>StringUUID\<close> binds into a query.\<close>

fun str_of_key :: "pykey \<Rightarrow> string" where
  "str_of_key (StrKey s) = s"
| "str_of_key (UuidKey s) = s"

text \<open>
  The rows of \<open>Menu\<close> and \<open>RoleMenu\<close> (models/account.py), without the two timestamps,
  and the two tables.
\<close>

record Menu =
  m_id :: string
  m_menu_key :: string
  m_menu_name :: string
  m_menu_type :: string
  m_parent_id :: "string option"
  m_icon :: "string option"
  m_path :: "string option"
  m_sort_order :: int
  m_is_active :: bool
  m_description :: "string option"

record RoleMenu =
  rm_role_id :: string
  rm_menu_id :: string

record menu_db =
  menus :: "Menu list"
  role_menus :: "RoleMenu list"

text \<open>
  The dictionary \<open>menu_data\<close> of a request body with values of the columns' types: a
  field is \<open>None\<close> when the key is absent; for a nullable column the inner \<open>None\<close> is
  JSON \<open>null\<close>.
\<close>

record menu_data =
  md_menu_key :: "string option"
  md_menu_name :: "string option"
  md_menu_type :: "string option"
  md_parent_id :: "string option option"
  md_icon :: "string option option"
  md_path :: "string option option"
  md_sort_order :: "int option"
  md_is_active :: "bool option"
  md_description :: "string option option"

text \<open>\<open>menu_data.get('parent_id')\<close>.\<close>

definition get_parent_id :: "menu_data \<Rightarrow> string option" where
  "get_parent_id menu_data = (case md_parent_id menu_data of None \<Rightarrow> None | Some v \<Rightarrow> v)"

text \<open>
  \<open>db.session.get(Menu, key)\<close>: the row whose primary key is the bound value of the
  key.
\<close>

definition session_get_Menu :: "menu_db \<Rightarrow> pykey \<Rightarrow> Menu option" where
  "session_get_Menu db key = find (\<lambda>m. m_id m = str_of_key key) (menus db)"

text \<open>
  The loop of \<open>_would_create_cycle\<close> (lines 80 to 86): \<open>current_id\<close> walks up the parents
  until it is falsy or has been visited; it is compared with \<open>menu_id\<close> by \<open>==\<close>.
\<close>

function would_create_cycle_loop :: "menu_db \<Rightarrow> pykey \<Rightarrow> string option \<Rightarrow> string set \<Rightarrow> bool" where
  "would_create_cycle_loop db menu_id current_id visited =
     (if truthy current_id \<and> the current_id \<notin> visited then
        if StrKey (the current_id) = menu_id then True
        else would_create_cycle_loop db menu_id
               (case session_get_Menu db (StrKey (the current_id)) of
                  None \<Rightarrow> None
                | Some parent_menu \<Rightarrow> m_parent_id parent_menu)
               (insert (the current_id) visited)
      else False)"
  by pat_completeness auto
termination
proof (relation "measure (\<lambda>(db, menu_id, current_id, visited).
         2 * card (set (map m_id (menus db)) - visited) + (if truthy current_id then 1 else 0))",
       goal_cases)
  case 1
  show ?case by simp
next
  case (2 db menu_id current_id visited)
  let ?ids = "set (map m_id (menus db))"
  let ?c = "the current_id"
  from 2 have t: "truthy current_id" and nv: "?c \<notin> visited" by simp_all
  show ?case
  proof (cases "session_get_Menu db (StrKey ?c)")
    case None
    have "card (?ids - insert ?c visited) \<le> card (?ids - visited)"
      by (rule card_mono) auto
    with None t show ?thesis by (simp add: truthy_def)
  next
    case (Some parent_menu)
    then obtain i where "i < length (menus db)" "m_id (menus db ! i) = ?c"
      by (auto simp: session_get_Menu_def find_Some_iff)
    then have "?c \<in> ?ids"
      by (metis nth_mem image_eqI set_map)
    with nv have "?ids - insert ?c visited \<subset> ?ids - visited" by auto
    then have "card (?ids - insert ?c visited) < card (?ids - visited)"
      by (rule psubset_card_mono[rotated]) simp
    with Some t show ?thesis by simp
  qed
qed

declare would_create_cycle_loop.simps [simp del]

text \<open>\<open>MenuService._would_create_cycle\<close>.\<close>

definition would_create_cycle :: "menu_db \<Rightarrow> pykey \<Rightarrow> string \<Rightarrow> bool" where
  "would_create_cycle db menu_id parent_id = would_create_cycle_loop db menu_id (Some parent_id) {}"

text \<open>The \<open>setattr\<close> loop of \<open>update_menu\<close>: every key present in \<open>menu_data\<close> is written.\<close>

definition set_fields :: "menu_data \<Rightarrow> Menu \<Rightarrow> Menu" where
  "set_fields menu_data menu =
     menu\<lparr>m_menu_key := (case md_menu_key menu_data of None \<Rightarrow> m_menu_key menu | Some v \<Rightarrow> v),
          m_menu_name := (case md_menu_name menu_data of None \<Rightarrow> m_menu_name menu | Some v \<Rightarrow> v),
          m_menu_type := (case md_menu_type menu_data of None \<Rightarrow> m_menu_type menu | Some v \<Rightarrow> v),
          m_parent_id := (case md_parent_id menu_data of None \<Rightarrow> m_parent_id menu | Some v \<Rightarrow> v),
          m_icon := (case md_icon menu_data of None \<Rightarrow> m_icon menu | Some v \<Rightarrow> v),
          m_path := (case md_path menu_data of None \<Rightarrow> m_path menu | Some v \<Rightarrow> v),
          m_sort_order := (case md_sort_order menu_data of None \<Rightarrow> m_sort_order menu | Some v \<Rightarrow> v),
          m_is_active := (case md_is_active menu_data of None \<Rightarrow> m_is_active menu | Some v \<Rightarrow> v),
          m_description := (case md_description menu_data of None \<Rightarrow> m_description menu | Some v \<Rightarrow> v)\<rparr>"

text \<open>The commit of the changed row: it replaces the row of the same primary key.\<close>

definition commit_menu :: "menu_db \<Rightarrow> Menu \<Rightarrow> menu_db" where
  "commit_menu db menu = db\<lparr>menus := map (\<lambda>m. if m_id m = m_id menu then menu else m) (menus db)\<rparr>"

text \<open>
  The validation of the parent in \<open>update_menu\<close> (lines 56 to 67): the exception it
  raises, if any.
\<close>

definition validate_parent :: "menu_db \<Rightarrow> pykey \<Rightarrow> menu_data \<Rightarrow> py_error option" where
  "validate_parent db menu_id menu_data =
     (if truthy (get_parent_id menu_data) then
        let parent_id = the (get_parent_id menu_data) in
        if StrKey parent_id = menu_id then Some (ValueError ''a menu cannot be its own parent'')
        else
          (case session_get_Menu db (StrKey parent_id) of
             None \<Rightarrow> Some (ValueError ''parent menu does not exist'')
           | Some parent \<Rightarrow>
               if would_create_cycle db menu_id parent_id
               then Some (ValueError ''setting the parent would create a cycle'')
               else None)
      else None)"

text \<open>
  \<open>MenuService.update_menu\<close>: the store after the call and the exception or \<open>None\<close>.
  Every \<open>raise\<close> comes before the first \<open>setattr\<close>, so an exception leaves the store
  as it was.
\<close>

definition update_menu :: "menu_db \<Rightarrow> pykey \<Rightarrow> menu_data \<Rightarrow> menu_db \<times> (py_error + unit)" where
  "update_menu db menu_id menu_data =
     (case session_get_Menu db menu_id of
        None \<Rightarrow> (db, Inl (ValueError ''menu does not exist''))
      | Some menu \<Rightarrow>
          if md_menu_key menu_data \<noteq> None \<and> the (md_menu_key menu_data) \<noteq> m_menu_key menu
             \<and> find (\<lambda>m. m_menu_key m = the (md_menu_key menu_data) \<and> m_id m \<noteq> str_of_key menu_id)
                  (menus db) \<noteq> None
          then (db, Inl (ValueError ''menu key already exists''))
          else
            (case validate_parent db menu_id menu_data of
               Some e \<Rightarrow> (db, Inl e)
             | None \<Rightarrow> (commit_menu db (set_fields menu_data menu), Inr ())))"

text \<open>
  \<open>MenuDetailApi.put\<close> (controllers/console/workspace/menu.py): the route
  \<open>/workspaces/current/menus/<uuid:menu_id>\<close> converts the path segment to a
  \<open>uuid.UUID\<close>, and the method passes it to \<open>update_menu\<close> as it is. The result is the
  store, the field \<open>success\<close> of the body and the HTTP status.
\<close>

definition MenuDetailApi_put :: "menu_db \<Rightarrow> string \<Rightarrow> menu_data \<Rightarrow> menu_db \<times> bool \<times> nat" where
  "MenuDetailApi_put db menu_id menu_data =
     (case update_menu db (UuidKey menu_id) menu_data of
        (db', Inr u) \<Rightarrow> (db', True, 200)
      | (db', Inl (ValueError m)) \<Rightarrow> (db', False, 400)
      | (db', Inl e) \<Rightarrow> (db', False, 500))"

text \<open>
  The parent-id graph over the rows: an edge from a row's id to its \<open>parent_id\<close>.
\<close>

definition parent_edges :: "menu_db \<Rightarrow> (string \<times> string) set" where
  "parent_edges db =
     (\<lambda>m. (m_id m, the (m_parent_id m))) ` set (filter (\<lambda>m. m_parent_id m \<noteq> None) (menus db))"

text \<open>
  The state of the table the operations start from: the ids are a primary key, none is
  the empty string, and the parent-id graph is acyclic.
\<close>

definition menu_tree :: "menu_db \<Rightarrow> bool" where
  "menu_tree db =
     (distinct (map m_id (menus db)) \<and> [] \<notin> set (map m_id (menus db)) \<and> acyclic (parent_edges db))"

text \<open>The row \<open>Menu(...)\<close> that \<open>create_menu\<close> builds (lines 26 to 36), with its id.\<close>

definition new_menu :: "string \<Rightarrow> string \<Rightarrow> string \<Rightarrow> menu_data \<Rightarrow> Menu" where
  "new_menu new_id menu_key menu_name menu_data =
     \<lparr>m_id = new_id,
      m_menu_key = menu_key,
      m_menu_name = menu_name,
      m_menu_type = (case md_menu_type menu_data of None \<Rightarrow> ''menu'' | Some v \<Rightarrow> v),
      m_parent_id = get_parent_id menu_data,
      m_icon = (case md_icon menu_data of None \<Rightarrow> None | Some v \<Rightarrow> v),
      m_path = (case md_path menu_data of None \<Rightarrow> None | Some v \<Rightarrow> v),
      m_sort_order = (case md_sort_order menu_data of None \<Rightarrow> 0 | Some v \<Rightarrow> v),
      m_is_active = (case md_is_active menu_data of None \<Rightarrow> True | Some v \<Rightarrow> v),
      m_description = (case md_description menu_data of None \<Rightarrow> None | Some v \<Rightarrow> v)\<rparr>"

text \<open>
  \<open>MenuService.create_menu\<close>; \<open>new_id\<close> is the value the server default
  \<open>uuid_generate_v4()\<close> gives the row, and the primary key constraint \<open>menu_pkey\<close>
  refuses an id the table has.
\<close>

definition create_menu :: "menu_db \<Rightarrow> string \<Rightarrow> menu_data \<Rightarrow> menu_db \<times> (py_error + string)" where
  "create_menu db new_id menu_data =
     (case md_menu_key menu_data of
        None \<Rightarrow> (db, Inl (KeyError ''menu_key''))
      | Some menu_key \<Rightarrow>
          if find (\<lambda>m. m_menu_key m = menu_key) (menus db) \<noteq> None
          then (db, Inl (PyException ''menu key already exists''))
          else if truthy (get_parent_id menu_data)
                  \<and> session_get_Menu db (StrKey (the (get_parent_id menu_data))) = None
          then (db, Inl (ValueError ''parent menu does not exist''))
          else
            (case md_menu_name menu_data of
               None \<Rightarrow> (db, Inl (KeyError ''menu_name''))
             | Some menu_name \<Rightarrow>
                 if new_id \<in> set (map m_id (menus db)) then (db, Inl (IntegrityError ''menu_pkey''))
                 else (db\<lparr>menus := menus db @ [new_menu new_id menu_key menu_name menu_data]\<rparr>,
                       Inr new_id)))"

text \<open>
  \<open>MenuService.delete_menu\<close> and its loop over the children. The method calls itself
  for every child, so the model counts the depth of the calls it may still make: with
  none left the result is \<open>None\<close>. Every call that returns has committed; an exception
  in a child's call leaves the store of the last commit. The result is
  \<open>deleted_count\<close>.
\<close>

fun delete_menu :: "nat \<Rightarrow> menu_db \<Rightarrow> pykey \<Rightarrow> bool \<Rightarrow> (menu_db \<times> (py_error + nat)) option"
  and delete_children :: "nat \<Rightarrow> menu_db \<Rightarrow> Menu list \<Rightarrow> nat \<Rightarrow> (menu_db \<times> (py_error + nat)) option"
where
  "delete_menu 0 db menu_id cascade = None"
| "delete_menu (Suc depth) db menu_id cascade =
     (case session_get_Menu db menu_id of
        None \<Rightarrow> Some (db, Inl (ValueError ''menu does not exist''))
      | Some menu \<Rightarrow>
          let children = filter (\<lambda>m. m_parent_id m = Some (str_of_key menu_id)) (menus db) in
          if children \<noteq> [] \<and> \<not> cascade
          then Some (db, Inl (ValueError ''the menu has children''))
          else
            (case (if cascade \<and> children \<noteq> [] then delete_children depth db children 0
                   else Some (db, Inr 0)) of
               None \<Rightarrow> None
             | Some (db', Inl e) \<Rightarrow> Some (db', Inl e)
             | Some (db', Inr deleted_count) \<Rightarrow>
                 Some (db'\<lparr>menus := filter (\<lambda>m. m_id m \<noteq> m_id menu) (menus db'),
                           role_menus := filter (\<lambda>r. rm_menu_id r \<noteq> str_of_key menu_id)
                                           (role_menus db')\<rparr>,
                       Inr (deleted_count + 1))))"
| "delete_children depth db [] deleted_count = Some (db, Inr deleted_count)"
| "delete_children depth db (child # rest) deleted_count =
     (case delete_menu depth db (StrKey (m_id child)) True of
        None \<Rightarrow> None
      | Some (db', Inl e) \<Rightarrow> Some (db', Inl e)
      | Some (db', Inr n) \<Rightarrow> delete_children depth db' rest (deleted_count + n))"

subsection \<open>A sample menu table\<close>

definition root_id :: string where
  "root_id = ''00000000-0000-0000-0000-000000000001''"

definition child_id :: string where
  "child_id = ''00000000-0000-0000-0000-000000000002''"

definition menu_row :: "string \<Rightarrow> string \<Rightarrow> string option \<Rightarrow> Menu" where
  "menu_row i k p =
     \<lparr>m_id = i, m_menu_key = k, m_menu_name = k, m_menu_type = ''menu'', m_parent_id = p,
      m_icon = None, m_path = None, m_sort_order = 0, m_is_active = True, m_description = None\<rparr>"

definition menu_example :: menu_db where
  "menu_example =
     \<lparr>menus = [menu_row root_id ''system'' None, menu_row child_id ''users'' (Some root_id)],
      role_menus = []\<rparr>"

text \<open>The body \<open>{"parent_id": p}\<close>.\<close>

definition parent_request :: "string \<Rightarrow> menu_data" where
  "parent_request p =
     \<lparr>md_menu_key = None, md_menu_name = None, md_menu_type = None, md_parent_id = Some (Some p),
      md_icon = None, md_path = None, md_sort_order = None, md_is_active = None,
      md_description = None\<rparr>"

section \<open>Properties: role-account service\<close>

lemma find_None_iff_set: "find P xs = None \<longleftrightarrow> (\<forall>x\<in>set xs. \<not> P x)"
  by (induction xs) auto

lemma find_Some_holds: "find P xs = Some x \<Longrightarrow> P x \<and> x \<in> set xs"
  by (induction xs) (auto split: if_splits)

text \<open>
  Claim C7. For a role of the tenant, an account that is a member of the tenant and does
  not hold the role yet, \<open>add_account_to_role\<close> succeeds, and afterwards the account's
  rows in the tenant are exactly the one new row for that role: every row the account
  had in the tenant is deleted. The rows of other accounts and tenants are kept.
\<close>

theorem add_account_to_role_replace_all:
  assumes role: "find (\<lambda>r. role_id r = rid) (roles db) = Some role"
      and tenant: "role_tenant_id role = tenant_id"
      and member: "\<exists>j\<in>set (tenant_account_joins db). taj_tenant_id j = tenant_id \<and> taj_account_id j = aid"
      and fresh: "\<forall>r\<in>set (account_roles db).
                    \<not> (ar_tenant_id r = tenant_id \<and> ar_account_id r = aid \<and> ar_role_id r = rid)"
  shows "\<exists>db' res. add_account_to_role db new_id tenant_id rid aid = Inr (db', res)
           \<and> success res
           \<and> account_roles_of db' tenant_id aid =
               [\<lparr>ar_id = new_id, ar_tenant_id = tenant_id, ar_account_id = aid, ar_role_id = rid\<rparr>]
           \<and> filter (\<lambda>r. \<not> (ar_tenant_id r = tenant_id \<and> ar_account_id r = aid)) (account_roles db') =
               filter (\<lambda>r. \<not> (ar_tenant_id r = tenant_id \<and> ar_account_id r = aid)) (account_roles db)
           \<and> roles db' = roles db \<and> tenant_account_joins db' = tenant_account_joins db"
proof -
  from member obtain j where
    "find (\<lambda>j. taj_tenant_id j = tenant_id \<and> taj_account_id j = aid) (tenant_account_joins db) = Some j"
    by (cases "find (\<lambda>j. taj_tenant_id j = tenant_id \<and> taj_account_id j = aid) (tenant_account_joins db)")
       (auto simp: find_None_iff_set)
  moreover from fresh have
    "find (\<lambda>r. ar_tenant_id r = tenant_id \<and> ar_account_id r = aid \<and> ar_role_id r = rid)
       (account_roles db) = None"
    by (simp add: find_None_iff_set)
  ultimately show ?thesis
    using role tenant
    by (simp add: add_account_to_role_def account_roles_of_def Let_def)
qed

theorem add_account_to_role_replace_all_witness:
  "account_roles_of rbac_example ''t1'' ''a1'' =
     [\<lparr>ar_id = ''x1'', ar_tenant_id = ''t1'', ar_account_id = ''a1'', ar_role_id = ''r1''\<rparr>,
      \<lparr>ar_id = ''x3'', ar_tenant_id = ''t1'', ar_account_id = ''a1'', ar_role_id = ''r2''\<rparr>]
   \<and> (\<exists>db' res. add_account_to_role rbac_example ''x9'' ''t1'' ''r3'' ''a1'' = Inr (db', res)
           \<and> success res
           \<and> account_roles_of db' ''t1'' ''a1'' =
               [\<lparr>ar_id = ''x9'', ar_tenant_id = ''t1'', ar_account_id = ''a1'', ar_role_id = ''r3''\<rparr>])"
proof -
  have "\<exists>db' res. add_account_to_role rbac_example ''x9'' ''t1'' ''r3'' ''a1'' = Inr (db', res)
           \<and> success res
           \<and> account_roles_of db' ''t1'' ''a1'' =
               [\<lparr>ar_id = ''x9'', ar_tenant_id = ''t1'', ar_account_id = ''a1'', ar_role_id = ''r3''\<rparr>]
           \<and> filter (\<lambda>r. \<not> (ar_tenant_id r = ''t1'' \<and> ar_account_id r = ''a1'')) (account_roles db') =
               filter (\<lambda>r. \<not> (ar_tenant_id r = ''t1'' \<and> ar_account_id r = ''a1'')) (account_roles rbac_example)
           \<and> roles db' = roles rbac_example
           \<and> tenant_account_joins db' = tenant_account_joins rbac_example"
    by (rule add_account_to_role_replace_all
          [where role = "\<lparr>role_id = ''r3'', role_tenant_id = ''t1'', role_name = ''builder''\<rparr>"])
       (simp_all add: rbac_example_def)
  then show ?thesis
    by (auto simp: account_roles_of_def rbac_example_def)
qed

section \<open>Properties: API key service\<close>

lemma set_get_api_keys_query:
  "set (get_api_keys_query ks now t rt rn ap st) =
     {k \<in> set ks. other_filters t rt rn ap k \<and> status_condition st now k}"
  by (auto simp: get_api_keys_query_def other_filters_def Let_def status_condition_def truthy_def
           split: option.splits)

lemma paginate_items_subset: "set (items (paginate rows page pp)) \<subseteq> set rows"
  by (auto simp: paginate_def Let_def dest: in_set_takeD in_set_dropD)

text \<open>Every row of the query is on one of the pages.\<close>

lemma paginate_covers:
  assumes "x \<in> set rows"
  shows "\<exists>page. x \<in> set (items (paginate rows page pp))"
proof -
  define n where "n = nat (if pp < 1 then 20 else pp)"
  have n: "0 < n" by (simp add: n_def)
  from assms obtain i where i: "i < length rows" "rows ! i = x"
    by (auto simp: in_set_conv_nth)
  define page where "page = int (i div n) + 1"
  have pg: "\<not> page < 1" by (simp add: page_def)
  have off: "nat ((page - 1) * (if pp < 1 then 20 else pp)) = (i div n) * n"
    by (simp add: page_def n_def nat_mult_distrib)
  have eq: "(i div n) * n + i mod n = i" by simp
  have le: "(i div n) * n \<le> i" by (metis eq le_add1)
  have len: "i mod n < length (take n (drop ((i div n) * n) rows))"
  proof -
    have "i mod n < n" using n by simp
    moreover have "i mod n < length rows - (i div n) * n"
      using i(1) eq le by linarith
    ultimately show ?thesis by simp
  qed
  have "take n (drop ((i div n) * n) rows) ! (i mod n) = x"
    using i n len by simp
  with len have "x \<in> set (take n (drop ((i div n) * n) rows))"
    by (metis nth_mem)
  then have "x \<in> set (items (paginate rows page pp))"
    using pg off by (simp add: paginate_def Let_def n_def)
  then show ?thesis ..
qed

lemma listed_eq:
  "listed ks now t pp rt rn ap st =
     {k \<in> set ks. other_filters t rt rn ap k \<and> status_condition st now k}"
proof -
  have "listed ks now t pp rt rn ap st = set (get_api_keys_query ks now t rt rn ap st)"
    using paginate_covers[of _ "get_api_keys_query ks now t rt rn ap st" pp]
          paginate_items_subset[of "get_api_keys_query ks now t rt rn ap st" _ pp]
    by (auto simp: listed_def get_api_keys_def)
  then show ?thesis by (simp add: set_get_api_keys_query)
qed

lemma active_iff: "status_condition (Some ''active'') now k \<longleftrightarrow> (\<exists>e. ak_end_date k = Some e \<and> now \<le> e) \<and> ak_is_active k"
  by (simp add: status_condition_def sql_ge_def split: option.splits)

lemma expired_iff: "status_condition (Some ''expired'') now k \<longleftrightarrow>
   ak_validity_type k = ''limited'' \<and> (\<exists>e. ak_end_date k = Some e \<and> e < now)"
  by (simp add: status_condition_def sql_lt_def split: option.splits)

lemma inactive_iff: "status_condition (Some ''inactive'') now k \<longleftrightarrow> \<not> ak_is_active k"
  by (simp add: status_condition_def)

text \<open>
  Claim C6. Among the keys that pass the other filters of the request, the list operation
  shows under \<open>active\<close> exactly those with an end date not before now that are active,
  under \<open>expired\<close> exactly those of validity type \<open>limited\<close> with an end date before
  now, and under \<open>inactive\<close> exactly those that are not active. So a limited key whose
  end date has passed is listed under \<open>expired\<close> and not under \<open>active\<close>, and a key
  that is not active is listed under \<open>inactive\<close> whatever its dates.
\<close>

theorem api_key_status_filter_semantics:
  "listed ks now t pp rt rn ap (Some ''active'') =
     {k \<in> set ks. other_filters t rt rn ap k \<and> (\<exists>e. ak_end_date k = Some e \<and> now \<le> e) \<and> ak_is_active k}
   \<and> listed ks now t pp rt rn ap (Some ''expired'') =
     {k \<in> set ks. other_filters t rt rn ap k \<and> ak_validity_type k = ''limited''
                   \<and> (\<exists>e. ak_end_date k = Some e \<and> e < now)}
   \<and> listed ks now t pp rt rn ap (Some ''inactive'') =
     {k \<in> set ks. other_filters t rt rn ap k \<and> \<not> ak_is_active k}
   \<and> (\<forall>k e. k \<in> set ks \<and> other_filters t rt rn ap k \<and> ak_validity_type k = ''limited''
              \<and> ak_end_date k = Some e \<and> e < now
          \<longrightarrow> k \<in> listed ks now t pp rt rn ap (Some ''expired'')
              \<and> k \<notin> listed ks now t pp rt rn ap (Some ''active''))
   \<and> (\<forall>k. k \<in> set ks \<and> other_filters t rt rn ap k \<and> \<not> ak_is_active k
          \<longrightarrow> k \<in> listed ks now t pp rt rn ap (Some ''inactive''))"
  unfolding listed_eq active_iff expired_iff inactive_iff by auto

theorem api_key_status_filter_semantics_witness:
  "api_key_example \<in> listed [api_key_example] 100 ''t1'' 10 (Some ''workflow'') (Some ''rep'') None (Some ''expired'')
   \<and> api_key_example \<notin> listed [api_key_example] 100 ''t1'' 10 (Some ''workflow'') (Some ''rep'') None (Some ''active'')
   \<and> api_key_example \<in> listed [api_key_example] 100 ''t1'' 10 (Some ''workflow'') (Some ''rep'') None (Some ''inactive'')"
proof -
  have base: "other_filters ''t1'' (Some ''workflow'') (Some ''rep'') None api_key_example"
    by code_simp
  have fields: "ak_validity_type api_key_example = ''limited''" "ak_end_date api_key_example = Some 50"
               "\<not> ak_is_active api_key_example" "(50::int) < 100" "api_key_example \<in> set [api_key_example]"
    by (simp_all add: api_key_example_def)
  note inst = api_key_status_filter_semantics
            [of "[api_key_example]" 100 "''t1''" 10 "Some ''workflow''" "Some ''rep''" None]
  from inst have a: "\<forall>k e. k \<in> set [api_key_example] \<and> other_filters ''t1'' (Some ''workflow'') (Some ''rep'') None k \<and> ak_validity_type k = ''limited''
              \<and> ak_end_date k = Some e \<and> e < 100
          \<longrightarrow> k \<in> listed [api_key_example] 100 ''t1'' 10 (Some ''workflow'') (Some ''rep'') None (Some ''expired'')
              \<and> k \<notin> listed [api_key_example] 100 ''t1'' 10 (Some ''workflow'') (Some ''rep'') None (Some ''active'')"
    by blast
  from inst have b: "\<forall>k. k \<in> set [api_key_example] \<and> other_filters ''t1'' (Some ''workflow'') (Some ''rep'') None k \<and> \<not> ak_is_active k
          \<longrightarrow> k \<in> listed [api_key_example] 100 ''t1'' 10 (Some ''workflow'') (Some ''rep'') None (Some ''inactive'')"
    by blast
  from a base fields have "api_key_example \<in> listed [api_key_example] 100 ''t1'' 10 (Some ''workflow'') (Some ''rep'') None (Some ''expired'')
              \<and> api_key_example \<notin> listed [api_key_example] 100 ''t1'' 10 (Some ''workflow'') (Some ''rep'') None (Some ''active'')"
    by blast
  moreover from b base fields have "api_key_example \<in> listed [api_key_example] 100 ''t1'' 10 (Some ''workflow'') (Some ''rep'') None (Some ''inactive'')"
    by blast
  ultimately show ?thesis by blast
qed

text \<open>
  Claim C3, first part, which the code keeps: a resource type outside
  \<open>agent-chat\<close> and \<open>workflow\<close> is refused with \<open>InvalidResourceTypeError\<close>.
\<close>

lemma create_api_key_invalid_type:
  "cr_resource_type req \<noteq> ''agent-chat'' \<Longrightarrow> cr_resource_type req \<noteq> ''workflow'' \<Longrightarrow>
   create_api_key app_rows ks gen new_id now uid req =
     Inl (InvalidResourceTypeError (''Invalid resource type: '' @ cr_resource_type req))"
  by (simp add: create_api_key_def)

text \<open>
  Claim C3, second part, which the code breaks: for an allowed resource type the call
  stops at line 41, where \<open>self._validate_resource_exist\<close> names a function the class
  does not define (it defines \<open>_validate_resource_exists\<close>). No key is generated and
  no row is stored, whatever the store and the key generator.
\<close>

lemma call_method_validate_resource_exist:
  "call_method ''_validate_resource_exist'' n = Inl (AttributeError ''_validate_resource_exist'')"
  by (simp add: call_method_def ApiKeyService_methods_def)

lemma create_api_key_allowed_type:
  "cr_resource_type req = ''agent-chat'' \<or> cr_resource_type req = ''workflow'' \<Longrightarrow>
   create_api_key app_rows ks gen new_id now uid req = Inl (AttributeError ''_validate_resource_exist'')"
  by (auto simp: create_api_key_def call_method_validate_resource_exist)

theorem create_api_key_workflow_raises:
  "create_api_key [app_example] [] (\<lambda>i. ''sk-fresh'') ''k1'' 100 ''u1'' create_request_example =
     Inl (AttributeError ''_validate_resource_exist'')"
  by (simp add: create_api_key_def create_request_example_def call_method_validate_resource_exist)

section \<open>Properties: RAG workflow node\<close>









lemma empty_ok: "validate_RagResponse [] = Some \<lparr>rr_code = [], rr_data = None, rr_msg = [], rr_status = []\<rparr>"
  by (simp add: validate_RagResponse_def str_field_def obj_get_def data_field_def)


lemma parse_ok:
  "200 \<le> sc \<Longrightarrow> sc < 300 \<Longrightarrow> validate_RagResponse kvs = Some r \<Longrightarrow>
   send_rag_request (HttpResponse sc (Some (JObj kvs))) = Inr r"
  by (simp add: send_rag_request_def)














section \<open>Properties: publish to the square\<close>

text \<open>A string never equals a member of \<open>ApplyAppType\<close>.\<close>

lemma str_never_enum:
  "PyStr s \<noteq> ApplyAppType_WORKFLOW" "PyStr s \<noteq> ApplyAppType_AGENT"
  by (simp_all add: ApplyAppType_WORKFLOW_def ApplyAppType_AGENT_def)

text \<open>
  Claim C5, which the code breaks. The submit endpoint compares the parsed
  \<open>apply_app_type\<close>, a string, with the members of the \<open>IntEnum\<close>
  \<open>ApplyAppType\<close>; the comparison is false for every request, so neither existence
  check runs and the soft failure \<open>{result: "fail"}\<close> is never returned.
\<close>

lemma submit_never_soft_fails:
  "snd (Published2SquareApi_post db cu app_model args ids) \<noteq> Inr version_deleted"
  by (auto simp: Published2SquareApi_post_def str_never_enum Let_def version_deleted_def
           split: sum.splits prod.splits)


text \<open>
  Claim C4, which the code breaks. For an application id that matches no application the
  endpoint commits the failure notification for the roles \<open>admin\<close> and \<open>owner\<close> and
  then raises \<open>AttributeError\<close> at line 179 instead of returning the soft failure it has
  prepared. No status, history row or snapshot is written.
\<close>

lemma approve_missing:
  assumes "cu_is_account cu" "cu_is_editor cu" "get_by_id db (aa_application_id args) = None"
  shows "Published2SquareSysApproveApi_post db cu args ids =
           (notify_missing db cu args ids,
            Inl (AttributeError ''NoneType object has no attribute apply_app_id''))"
  using assms by (simp add: Published2SquareSysApproveApi_post_def)


lemma find_append:
  "find P (xs @ ys) = (case find P xs of None \<Rightarrow> find P ys | Some x \<Rightarrow> Some x)"
  by (induction xs) auto

lemma find_None_set: "(\<forall>x\<in>set xs. \<not> P x) \<Longrightarrow> find P xs = None"
  by (induction xs) auto

lemma submit_commits:
  assumes "cu_is_account cu" "cu_is_editor cu"
      and "integer_column (PyStr (sa_apply_app_type args)) = Inr t"
  shows "\<exists>db1. Published2SquareApi_post db cu app_model args ids =
                 (db1, Inr \<lparr>resp_result = ''success'', resp_message = None\<rparr>)
          \<and> applications db1 = applications db @ [submitted_application cu app_model args ids t]
          \<and> histories db1 = histories db @
               [\<lparr>h_id = ids 1, h_application_id = ids 0, h_tenant_id = Some (sa_tenant_id args),
                 h_action = ''SUBMIT'', h_operator_id = cu_id cu, h_operator_role = ''admin'',
                 h_from_status = None, h_to_status = ''1'', h_reason = []\<rparr>]
          \<and> notifications db1 = notifications db @
               [\<lparr>n_id = ids 2, n_tenant_id = Some (sa_tenant_id args),
                 n_title = ''Publish to Square approval request'',
                 n_content = ''Publish to Square approval request, application id: '' @ ids 0,
                 n_msg_type = APPROVAL_TODO, n_account_id = None, n_role = Some [''admin'', ''owner''],
                 n_is_deal = False, n_application_id = Some (ids 0), n_created_by = None,
                 n_updated_by = None\<rparr>]
          \<and> publish_workflows db1 = publish_workflows db
          \<and> publish_app_model_configs db1 = publish_app_model_configs db
          \<and> workflows db1 = workflows db \<and> app_model_configs db1 = app_model_configs db
          \<and> apps db1 = apps db"
  using assms
  by (simp add: Published2SquareApi_post_def str_never_enum create_def add_history_def
        create_notification_def APPLYING_def str_of_status_def truthy_def Let_def
        submitted_application_def)


lemma map_cong_id: "(\<forall>x\<in>set xs. f x = x) \<Longrightarrow> map f xs = xs"
  by (induction xs) auto

lemma mark_dealt_notifications:
  "notifications (mark_dealt db cu nid) = map (dealt cu nid) (notifications db)"
proof (cases "nid = []")
  case True
  have "map (dealt cu []) (notifications db) = notifications db"
    by (intro map_cong_id) (simp add: dealt_def)
  with True show ?thesis by (simp add: mark_dealt_def)
next
  case False
  show ?thesis
  proof (cases "get_notification db nid")
    case None
    then have "\<forall>n\<in>set (notifications db). n_id n \<noteq> nid"
      by (simp add: get_notification_def find_None_iff_set)
    then have "map (dealt cu nid) (notifications db) = notifications db"
      by (intro map_cong_id) (simp add: dealt_def)
    with None False show ?thesis by (simp add: mark_dealt_def)
  next
    case (Some n)
    with False show ?thesis by (simp add: mark_dealt_def dealt_def)
  qed
qed

lemma mark_dealt_others:
  "applications (mark_dealt db cu nid) = applications db"
  "histories (mark_dealt db cu nid) = histories db"
  "publish_workflows (mark_dealt db cu nid) = publish_workflows db"
  "publish_app_model_configs (mark_dealt db cu nid) = publish_app_model_configs db"
  "workflows (mark_dealt db cu nid) = workflows db"
  "app_model_configs (mark_dealt db cu nid) = app_model_configs db"
  "apps (mark_dealt db cu nid) = apps db"
  by (simp_all add: mark_dealt_def split: option.splits)


lemma approve_commits:
  assumes cu: "cu_is_account cu" "cu_is_editor cu"
      and apps: "applications db1 = old @ [appl]" "\<forall>x\<in>set old. pa_id x \<noteq> aid" "pa_id appl = aid"
      and ty: "pa_apply_app_type appl = 1"
      and app: "load_app_model db1 (pa_apply_app_id appl) = Some a"
      and wf: "get_published_workflow_by_id db1 a (pa_apply_app_version_id appl) = Some w"
  shows "\<exists>db2. Published2SquareSysApproveApi_post db1 cu
                  \<lparr>aa_id = nid, aa_application_id = aid, aa_approve = True, aa_reason = rsn\<rparr> ids =
                 (db2, Inr operation_succeeded)
          \<and> applications db2 = old @ [appl\<lparr>pa_status := COMPLETED\<rparr>]
          \<and> histories db2 = histories db1 @
               [\<lparr>h_id = ids 1, h_application_id = aid, h_tenant_id = pa_tenant_id appl,
                 h_action = ''APPROVE'', h_operator_id = cu_id cu, h_operator_role = ''admin'',
                 h_from_status = None, h_to_status = ''4'',
                 h_reason = (if truthy rsn then the rsn else [])\<rparr>]
          \<and> notifications db2 = map (dealt cu nid) (notifications db1 @
               [\<lparr>n_id = ids 2, n_tenant_id = pa_tenant_id appl,
                 n_title = ''Publish to Square approved'',
                 n_content = ''Publish to Square approved, application id: '' @ aid,
                 n_msg_type = APPROVAL_RESULT, n_account_id = Some [pa_applicant_id appl],
                 n_role = None, n_is_deal = False, n_application_id = None,
                 n_created_by = Some (pa_applicant_id appl),
                 n_updated_by = Some (pa_applicant_id appl)\<rparr>])
          \<and> publish_workflows db2 = publish_workflows db1 @
               [snapshot_workflow (ids 3) a w (appl\<lparr>pa_status := COMPLETED\<rparr>)]
          \<and> publish_app_model_configs db2 = publish_app_model_configs db1
          \<and> workflows db2 =
               map (\<lambda>x. if wf_id x = pa_apply_app_version_id appl then x\<lparr>wf_publish_square := True\<rparr> else x)
                 (workflows db1)"
proof -
  have none: "find (\<lambda>x. pa_id x = aid) old = None"
    using apps(2) by (simp add: find_None_iff_set)
  have get: "get_by_id db1 aid = Some appl"
    using apps none by (simp add: get_by_id_def find_append)
  have upd: "map (\<lambda>x. if pa_id x = aid then x\<lparr>pa_status := COMPLETED\<rparr> else x) (old @ [appl]) =
             old @ [appl\<lparr>pa_status := COMPLETED\<rparr>]"
    using apps(2,3) by (simp add: map_cong_id)
  have us: "update_status db1 aid COMPLETED =
              Inr (db1\<lparr>applications := old @ [appl\<lparr>pa_status := COMPLETED\<rparr>]\<rparr>, appl\<lparr>pa_status := COMPLETED\<rparr>)"
    using get apps(1) upd by (simp add: update_status_def)
  have cv: "check_version db1 cu \<lparr>aa_id = nid, aa_application_id = aid, aa_approve = True, aa_reason = rsn\<rparr>
              ids appl (Some a) = Inr (db1, Some w, None, None)"
    using ty wf by (simp add: check_version_def ApplyAppType_WORKFLOW_def)
  have ab: "approve_branch db1 cu \<lparr>aa_id = nid, aa_application_id = aid, aa_approve = True, aa_reason = rsn\<rparr>
              ids (Some a) (Some w) None =
            (let application = appl\<lparr>pa_status := COMPLETED\<rparr>;
                 db2 = add_history (db1\<lparr>applications := old @ [application]\<rparr>) (ids 1) aid (pa_tenant_id application)
                      ''APPROVE'' (cu_id cu) ''admin'' None (str_of_status COMPLETED) rsn;
                 db3 = create_notification db2 (ids 2) (Some [pa_applicant_id application]) None
                      APPROVAL_RESULT (pa_tenant_id application)
                      ''Publish to Square approved''
                      (''Publish to Square approved, application id: '' @ aid)
                      None False;
                 publish_workflow = snapshot_workflow (ids 3) a w application;
                 db4 = db3\<lparr>publish_workflows := publish_workflows db3 @ [publish_workflow]\<rparr>;
                 db5 = db4\<lparr>workflows :=
                                 map (\<lambda>x. if wf_id x = pw_workflow_id publish_workflow
                                           then x\<lparr>wf_publish_square := True\<rparr> else x)
                                   (workflows db4)\<rparr>
             in (db5, Inr operation_succeeded))"
    using ty by (simp add: approve_branch_def us ApplyAppType_WORKFLOW_def Let_def)
  show ?thesis
    using cu get app cv
    by (simp add: Published2SquareSysApproveApi_post_def ab Let_def mark_dealt_notifications
          mark_dealt_others add_history_def create_notification_def str_of_status_def COMPLETED_def
          snapshot_workflow_def)
qed


text \<open>
  Claim C1. A request to publish an existing workflow version, submitted by an editor
  with \<open>apply_app_type\<close> denoting 1, and then approved through the sys-approve endpoint,
  leaves exactly one new \<open>PublishWorkflow\<close> row, whose \<open>workflow_id\<close> is that
  version; the \<open>publish_square\<close> flag of the source workflow is true; the application
  has exactly two history rows, \<open>SUBMIT\<close> then \<open>APPROVE\<close>; its status is
  \<open>COMPLETED\<close>; and two notifications were added: an \<open>APPROVAL_TODO\<close> for the roles
  \<open>admin\<close> and \<open>owner\<close>, and an \<open>APPROVAL_RESULT\<close> for the applicant. The
  application's primary key is fresh: no application has it and no history row names it.
\<close>

theorem publish_round_trip:
  assumes cu: "cu_is_account cu" "cu_is_editor cu"
      and rv: "cu_is_account rv" "cu_is_editor rv"
      and ty: "integer_column (PyStr (sa_apply_app_type args)) = Inr 1"
      and version: "get_published_workflow_by_id db app_model (sa_selected_workflow_agent_id args) = Some w"
      and app: "load_app_model db (app_id app_model) = Some a"
      and fresh: "\<forall>x\<in>set (applications db). pa_id x \<noteq> ids 0"
                 "\<forall>h\<in>set (histories db). h_application_id h \<noteq> ids 0"
      and submit: "Published2SquareApi_post db cu app_model args ids = (db1, r1)"
      and approve: "Published2SquareSysApproveApi_post db1 rv
                      \<lparr>aa_id = nid, aa_application_id = ids 0, aa_approve = True, aa_reason = rsn\<rparr> ids' =
                    (db2, r2)"
  shows "r1 = Inr \<lparr>resp_result = ''success'', resp_message = None\<rparr>
       \<and> r2 = Inr operation_succeeded
       \<and> (\<exists>pw. publish_workflows db2 = publish_workflows db @ [pw]
               \<and> pw_workflow_id pw = sa_selected_workflow_agent_id args)
       \<and> (\<exists>x\<in>set (workflows db2). wf_id x = sa_selected_workflow_agent_id args)
       \<and> (\<forall>x\<in>set (workflows db2). wf_id x = sa_selected_workflow_agent_id args \<longrightarrow> wf_publish_square x)
       \<and> map h_action (filter (\<lambda>h. h_application_id h = ids 0) (histories db2)) = [''SUBMIT'', ''APPROVE'']
       \<and> (\<exists>x. get_by_id db2 (ids 0) = Some x \<and> pa_status x = COMPLETED)
       \<and> length (notifications db2) = length (notifications db) + 2
       \<and> (\<exists>n\<in>set (notifications db2). n_msg_type n = APPROVAL_TODO
               \<and> n_role n = Some [''admin'', ''owner''] \<and> n_application_id n = Some (ids 0))
       \<and> (\<exists>n\<in>set (notifications db2). n_msg_type n = APPROVAL_RESULT
               \<and> n_account_id n = Some [cu_id cu])"
proof -
  let ?vid = "sa_selected_workflow_agent_id args"
  let ?appl = "submitted_application cu app_model args ids 1"
  from submit_commits[OF cu ty, of db app_model ids] submit
  have r1: "r1 = Inr \<lparr>resp_result = ''success'', resp_message = None\<rparr>"
    and a1: "applications db1 = applications db @ [?appl]"
    and h1: "histories db1 = histories db @
               [\<lparr>h_id = ids 1, h_application_id = ids 0, h_tenant_id = Some (sa_tenant_id args),
                 h_action = ''SUBMIT'', h_operator_id = cu_id cu, h_operator_role = ''admin'',
                 h_from_status = None, h_to_status = ''1'', h_reason = []\<rparr>]"
    and n1: "notifications db1 = notifications db @
               [\<lparr>n_id = ids 2, n_tenant_id = Some (sa_tenant_id args),
                 n_title = ''Publish to Square approval request'',
                 n_content = ''Publish to Square approval request, application id: '' @ ids 0,
                 n_msg_type = APPROVAL_TODO, n_account_id = None, n_role = Some [''admin'', ''owner''],
                 n_is_deal = False, n_application_id = Some (ids 0), n_created_by = None,
                 n_updated_by = None\<rparr>]"
    and p1: "publish_workflows db1 = publish_workflows db"
    and w1: "workflows db1 = workflows db" and ap1: "apps db1 = apps db"
    by auto
  have aid: "app_id a = app_id app_model"
    using find_Some_holds[OF app[unfolded load_app_model_def]] by simp
  have app1: "load_app_model db1 (pa_apply_app_id ?appl) = Some a"
    using app ap1 by (simp add: load_app_model_def submitted_application_def)
  have wf1: "get_published_workflow_by_id db1 a (pa_apply_app_version_id ?appl) = Some w"
    using version w1 aid by (simp add: get_published_workflow_by_id_def submitted_application_def)
  have pid: "pa_id ?appl = ids 0" and pty: "pa_apply_app_type ?appl = 1"
    by (simp_all add: submitted_application_def)
  from approve_commits[OF rv a1 fresh(1) pid pty app1 wf1, of nid rsn ids'] approve
  have r2: "r2 = Inr operation_succeeded"
    and a2: "applications db2 = applications db @ [?appl\<lparr>pa_status := COMPLETED\<rparr>]"
    and h2: "histories db2 = histories db1 @
               [\<lparr>h_id = ids' 1, h_application_id = ids 0, h_tenant_id = pa_tenant_id ?appl,
                 h_action = ''APPROVE'', h_operator_id = cu_id rv, h_operator_role = ''admin'',
                 h_from_status = None, h_to_status = ''4'',
                 h_reason = (if truthy rsn then the rsn else [])\<rparr>]"
    and n2: "notifications db2 = map (dealt rv nid) (notifications db1 @
               [\<lparr>n_id = ids' 2, n_tenant_id = pa_tenant_id ?appl,
                 n_title = ''Publish to Square approved'',
                 n_content = ''Publish to Square approved, application id: '' @ ids 0,
                 n_msg_type = APPROVAL_RESULT, n_account_id = Some [pa_applicant_id ?appl],
                 n_role = None, n_is_deal = False, n_application_id = None,
                 n_created_by = Some (pa_applicant_id ?appl),
                 n_updated_by = Some (pa_applicant_id ?appl)\<rparr>])"
    and p2: "publish_workflows db2 = publish_workflows db1 @
               [snapshot_workflow (ids' 3) a w (?appl\<lparr>pa_status := COMPLETED\<rparr>)]"
    and w2: "workflows db2 =
               map (\<lambda>x. if wf_id x = pa_apply_app_version_id ?appl then x\<lparr>wf_publish_square := True\<rparr> else x)
                 (workflows db1)"
    by auto
  have c3: "\<exists>pw. publish_workflows db2 = publish_workflows db @ [pw] \<and> pw_workflow_id pw = ?vid"
    using p2 p1 by (simp add: snapshot_workflow_def submitted_application_def)
  have win: "w \<in> set (workflows db)" "wf_id w = ?vid"
    using find_Some_holds[OF version[unfolded get_published_workflow_by_id_def]] by simp_all
  have "(\<lambda>x. if wf_id x = ?vid then x\<lparr>wf_publish_square := True\<rparr> else x) w \<in> set (workflows db2)"
    unfolding w2 w1 using win(1) by (simp add: submitted_application_def)
  with win(2) have "w\<lparr>wf_publish_square := True\<rparr> \<in> set (workflows db2)" by simp
  moreover have "wf_id (w\<lparr>wf_publish_square := True\<rparr>) = ?vid" using win(2) by simp
  ultimately have c4: "\<exists>x\<in>set (workflows db2). wf_id x = ?vid" by (rule bexI[rotated])
  have c5: "\<forall>x\<in>set (workflows db2). wf_id x = ?vid \<longrightarrow> wf_publish_square x"
    unfolding w2 w1 by (auto simp: submitted_application_def)
  have f0: "filter (\<lambda>h. h_application_id h = ids 0) (histories db) = []"
    using fresh(2) by (simp add: filter_empty_conv)
  have c6: "map h_action (filter (\<lambda>h. h_application_id h = ids 0) (histories db2)) = [''SUBMIT'', ''APPROVE'']"
    unfolding h2 h1 by (simp add: f0)
  have none: "find (\<lambda>x. pa_id x = ids 0) (applications db) = None"
    using fresh(1) by (simp add: find_None_iff_set)
  have c7: "\<exists>x. get_by_id db2 (ids 0) = Some x \<and> pa_status x = COMPLETED"
    unfolding get_by_id_def a2 by (simp add: find_append none submitted_application_def)
  have c8: "length (notifications db2) = length (notifications db) + 2"
    unfolding n2 n1 by simp
  have keep: "n_msg_type (dealt rv nid n) = n_msg_type n" "n_role (dealt rv nid n) = n_role n"
    "n_application_id (dealt rv nid n) = n_application_id n" "n_account_id (dealt rv nid n) = n_account_id n" for n
    by (simp_all add: dealt_def)
  let ?todo = "\<lparr>n_id = ids 2, n_tenant_id = Some (sa_tenant_id args),
                 n_title = ''Publish to Square approval request'',
                 n_content = ''Publish to Square approval request, application id: '' @ ids 0,
                 n_msg_type = APPROVAL_TODO, n_account_id = None, n_role = Some [''admin'', ''owner''],
                 n_is_deal = False, n_application_id = Some (ids 0), n_created_by = None,
                 n_updated_by = None\<rparr>"
  let ?res = "\<lparr>n_id = ids' 2, n_tenant_id = pa_tenant_id ?appl,
                 n_title = ''Publish to Square approved'',
                 n_content = ''Publish to Square approved, application id: '' @ ids 0,
                 n_msg_type = APPROVAL_RESULT, n_account_id = Some [pa_applicant_id ?appl],
                 n_role = None, n_is_deal = False, n_application_id = None,
                 n_created_by = Some (pa_applicant_id ?appl),
                 n_updated_by = Some (pa_applicant_id ?appl)\<rparr>"
  have t: "dealt rv nid ?todo \<in> set (notifications db2)"
    and r: "dealt rv nid ?res \<in> set (notifications db2)"
    unfolding n2 n1 by simp_all
  have c9: "\<exists>n\<in>set (notifications db2). n_msg_type n = APPROVAL_TODO
               \<and> n_role n = Some [''admin'', ''owner''] \<and> n_application_id n = Some (ids 0)"
    by (rule bexI[OF _ t]) (simp add: keep)
  have c10: "\<exists>n\<in>set (notifications db2). n_msg_type n = APPROVAL_RESULT
               \<and> n_account_id n = Some [cu_id cu]"
    by (rule bexI[OF _ r]) (simp add: keep submitted_application_def)
  from r1 r2 c3 c4 c5 c6 c7 c8 c9 c10 show ?thesis by (intro conjI)
qed


theorem publish_round_trip_witness:
  "snd (Published2SquareApi_post example_store editor app_example submit_example example_ids) =
     Inr \<lparr>resp_result = ''success'', resp_message = None\<rparr>
   \<and> snd (Published2SquareSysApproveApi_post
            (fst (Published2SquareApi_post example_store editor app_example submit_example example_ids))
            reviewer approve_example approval_ids) = Inr operation_succeeded
   \<and> map h_action (filter (\<lambda>h. h_application_id h = example_ids 0)
        (histories (fst (Published2SquareSysApproveApi_post
            (fst (Published2SquareApi_post example_store editor app_example submit_example example_ids))
            reviewer approve_example approval_ids)))) = [''SUBMIT'', ''APPROVE'']
   \<and> length (notifications (fst (Published2SquareSysApproveApi_post
            (fst (Published2SquareApi_post example_store editor app_example submit_example example_ids))
            reviewer approve_example approval_ids))) = 2"
proof -
  let ?S = "Published2SquareApi_post example_store editor app_example submit_example example_ids"
  let ?A = "Published2SquareSysApproveApi_post (fst ?S) reviewer approve_example approval_ids"
  have cu: "cu_is_account editor" "cu_is_editor editor" by (simp_all add: editor_def)
  have rv: "cu_is_account reviewer" "cu_is_editor reviewer" by (simp_all add: reviewer_def)
  have ty: "integer_column (PyStr (sa_apply_app_type submit_example)) = Inr 1"
    by (simp add: submit_example_def integer_column_def)
  have version: "get_published_workflow_by_id example_store app_example
                   (sa_selected_workflow_agent_id submit_example) = Some example_workflow"
    by (simp add: get_published_workflow_by_id_def example_store_def example_workflow_def
          app_example_def submit_example_def)
  have app: "load_app_model example_store (app_id app_example) = Some app_example"
    by (simp add: load_app_model_def example_store_def)
  have fresh: "\<forall>x\<in>set (applications example_store). pa_id x \<noteq> example_ids 0"
              "\<forall>h\<in>set (histories example_store). h_application_id h \<noteq> example_ids 0"
    by (simp_all add: example_store_def)
  have sub: "?S = (fst ?S, snd ?S)" by simp
  have apr: "Published2SquareSysApproveApi_post (fst ?S) reviewer
               \<lparr>aa_id = ''id2'', aa_application_id = example_ids 0, aa_approve = True, aa_reason = None\<rparr>
               approval_ids = (fst ?A, snd ?A)"
    by (simp add: approve_example_def)
  have n0: "length (notifications example_store) = 0" by (simp add: example_store_def)
  from publish_round_trip[OF cu rv ty version app fresh sub apr] n0
  show ?thesis by simp
qed

section \<open>Properties: passport service\<close>








section \<open>Properties: menu service\<close>

text \<open>
  The walk of \<open>_would_create_cycle\<close> called with a \<open>str\<close>: it answers \<open>True\<close> exactly when
  the menu is reached from the proposed parent along the parent links.
\<close>

lemma session_get_Menu_Some:
  "session_get_Menu db key = Some m \<Longrightarrow> m \<in> set (menus db) \<and> m_id m = str_of_key key"
  by (auto simp: session_get_Menu_def find_Some_iff)

lemma session_get_Menu_None:
  "session_get_Menu db key = None \<longleftrightarrow> str_of_key key \<notin> set (map m_id (menus db))"
  by (force simp: session_get_Menu_def find_None_iff)

lemma session_get_Menu_distinct:
  assumes "distinct (map m_id (menus db))" "m \<in> set (menus db)"
  shows "session_get_Menu db (StrKey (m_id m)) = Some m"
proof (cases "session_get_Menu db (StrKey (m_id m))")
  case None
  with assms(2) show ?thesis by (auto simp: session_get_Menu_None)
next
  case (Some m')
  then have "m' \<in> set (menus db)" "m_id m' = m_id m"
    using session_get_Menu_Some[OF Some] by simp_all
  with assms have "m' = m" by (meson distinct_map inj_onD)
  with Some show ?thesis by simp
qed

lemma parent_edges_iff:
  "(a, q) \<in> parent_edges db \<longleftrightarrow> (\<exists>m \<in> set (menus db). m_id m = a \<and> m_parent_id m = Some q)"
  by (auto simp: parent_edges_def image_iff)

lemma parent_edges_source:
  "(a, q) \<in> parent_edges db \<Longrightarrow> a \<in> set (map m_id (menus db))"
  by (auto simp: parent_edges_iff)

lemma loop_sound:
  "would_create_cycle_loop db (StrKey x) current_id visited
     \<Longrightarrow> \<exists>c. current_id = Some c \<and> (c, x) \<in> (parent_edges db)\<^sup>*"
proof (induction db "StrKey x" current_id visited rule: would_create_cycle_loop.induct)
  case (1 db current_id visited)
  note u = would_create_cycle_loop.simps[of db "StrKey x" current_id visited]
  from "1.prems" u have t: "truthy current_id" and nv: "the current_id \<notin> visited"
    by (auto split: if_splits)
  from t obtain c where c: "current_id = Some c" by (cases current_id) (auto simp: truthy_def)
  show ?case
  proof (cases "c = x")
    case True
    with c show ?thesis by simp
  next
    case False
    let ?next = "case session_get_Menu db (StrKey c) of None \<Rightarrow> None
                 | Some parent_menu \<Rightarrow> m_parent_id parent_menu"
    from "1.prems" u t nv c False
    have rec: "would_create_cycle_loop db (StrKey x) ?next (insert c visited)"
      by simp
    from "1.hyps"[of ] t nv c False rec
    obtain c' where n: "?next = Some c'" and r: "(c', x) \<in> (parent_edges db)\<^sup>*"
      by auto
    from n obtain m where g: "session_get_Menu db (StrKey c) = Some m" and p: "m_parent_id m = Some c'"
      by (auto split: option.splits)
    from session_get_Menu_Some[OF g] p have "(c, c') \<in> parent_edges db"
      by (auto simp: parent_edges_iff)
    with r c show ?thesis by (auto intro: converse_rtrancl_into_rtrancl)
  qed
qed

lemma loop_complete:
  assumes d: "distinct (map m_id (menus db))"
    and e: "[] \<notin> set (map m_id (menus db))"
    and a: "acyclic (parent_edges db)"
    and x: "x \<noteq> []"
  shows "(c, x) \<in> (parent_edges db)\<^sup>* \<Longrightarrow> \<forall>v \<in> visited. (v, c) \<in> (parent_edges db)\<^sup>+
         \<Longrightarrow> would_create_cycle_loop db (StrKey x) (Some c) visited"
proof (induction arbitrary: visited rule: converse_rtrancl_induct)
  case base
  have "x \<notin> visited"
  proof
    assume "x \<in> visited"
    with base have "(x, x) \<in> (parent_edges db)\<^sup>+" by blast
    with a show False by (simp add: acyclic_def)
  qed
  with x show ?case by (subst would_create_cycle_loop.simps) (simp add: truthy_def)
next
  case (step c c')
  from step.hyps(1) have cin: "c \<in> set (map m_id (menus db))" by (rule parent_edges_source)
  with e have ne: "c \<noteq> []" by metis
  have nv: "c \<notin> visited"
  proof
    assume "c \<in> visited"
    with step.prems have "(c, c) \<in> (parent_edges db)\<^sup>+" by blast
    with a show False by (simp add: acyclic_def)
  qed
  from step.hyps(1) obtain m where m: "m \<in> set (menus db)" "m_id m = c" "m_parent_id m = Some c'"
    by (auto simp: parent_edges_iff)
  from session_get_Menu_distinct[OF d m(1)] m(2)
  have g: "session_get_Menu db (StrKey c) = Some m" by simp
  have "\<forall>v \<in> insert c visited. (v, c') \<in> (parent_edges db)\<^sup>+"
    using step.hyps(1) step.prems by (auto intro: trancl_into_trancl)
  from step.IH[OF this] have "would_create_cycle_loop db (StrKey x) (Some c') (insert c visited)" .
  with ne nv g m(3) show ?case
    by (subst would_create_cycle_loop.simps) (simp add: truthy_def)
qed

lemma would_create_cycle_iff:
  assumes "menu_tree db" "x \<noteq> []"
  shows "would_create_cycle db (StrKey x) p \<longleftrightarrow> (p, x) \<in> (parent_edges db)\<^sup>*"
proof
  assume "would_create_cycle db (StrKey x) p"
  from loop_sound[OF this[unfolded would_create_cycle_def]] show "(p, x) \<in> (parent_edges db)\<^sup>*"
    by simp
next
  assume r: "(p, x) \<in> (parent_edges db)\<^sup>*"
  from assms have d: "distinct (map m_id (menus db))" and e: "[] \<notin> set (map m_id (menus db))"
    and a: "acyclic (parent_edges db)" by (simp_all add: menu_tree_def)
  from loop_complete[OF d e a assms(2) r, of "{}"] show "would_create_cycle db (StrKey x) p"
    by (simp add: would_create_cycle_def)
qed


lemma id_nonempty:
  "[] \<notin> set (map m_id (menus db)) \<Longrightarrow> a \<in> set (map m_id (menus db)) \<Longrightarrow> a \<noteq> []"
  by metis

lemma row_id_in:
  "m \<in> set (menus db) \<Longrightarrow> m_id m \<in> set (map m_id (menus db))"
  by simp

lemma menu_tree_id_nonempty:
  assumes "menu_tree db" "session_get_Menu db (StrKey x) = Some menu"
  shows "x \<noteq> []"
proof -
  from session_get_Menu_Some[OF assms(2)] have "menu \<in> set (menus db)" "m_id menu = x" by simp_all
  with row_id_in[of menu db] have "x \<in> set (map m_id (menus db))" by metis
  moreover from assms(1) have "[] \<notin> set (map m_id (menus db))" unfolding menu_tree_def by blast
  ultimately show ?thesis by (metis id_nonempty)
qed

lemma update_menu_rejects_descendant:
  assumes t: "menu_tree db"
    and g: "session_get_Menu db (StrKey x) = Some menu"
    and p: "md_parent_id menu_data = Some (Some p)"
    and c: "(p, x) \<in> (parent_edges db)\<^sup>*"
  shows "\<exists>e. update_menu db (StrKey x) menu_data = (db, Inl e)"
proof -
  from menu_tree_id_nonempty[OF t g] have x: "x \<noteq> []" .
  have pne: "p \<noteq> []"
  proof (cases "p = x")
    case True with x show ?thesis by simp
  next
    case False
    with c obtain z where "(p, z) \<in> parent_edges db" by (auto elim: converse_rtranclE)
    from parent_edges_source[OF this] have "p \<in> set (map m_id (menus db))" .
    moreover from t have "[] \<notin> set (map m_id (menus db))" unfolding menu_tree_def by blast
    ultimately show ?thesis by (metis id_nonempty)
  qed
  from would_create_cycle_iff[OF t x] c have w: "would_create_cycle db (StrKey x) p" by simp
  from p pne have tr: "truthy (get_parent_id menu_data)" "the (get_parent_id menu_data) = p"
    by (simp_all add: get_parent_id_def truthy_def)
  from tr w have "validate_parent db (StrKey x) menu_data \<noteq> None"
    by (simp add: validate_parent_def Let_def split: option.splits)
  then obtain e where "validate_parent db (StrKey x) menu_data = Some e" by blast
  with g show ?thesis by (simp add: update_menu_def)
qed

lemma map_m_id_commit:
  "map m_id (menus (commit_menu db menu)) = map m_id (menus db)"
  by (simp add: commit_menu_def comp_def cong: map_cong)

lemma parent_edges_commit:
  "(a, q) \<in> parent_edges (commit_menu db menu)
   \<Longrightarrow> (a \<noteq> m_id menu \<and> (a, q) \<in> parent_edges db) \<or> (a = m_id menu \<and> m_parent_id menu = Some q)"
  by (auto simp: parent_edges_iff commit_menu_def split: if_splits)

lemma acyclic_redirect:
  assumes a: "acyclic E" and s: "E' \<subseteq> {(a, q). a \<noteq> x \<and> (a, q) \<in> E} \<union> {(x, p)}"
    and n: "(p, x) \<notin> E\<^sup>*"
  shows "acyclic E'"
proof -
  let ?E0 = "{(a, q). a \<noteq> x \<and> (a, q) \<in> E}"
  have sub: "?E0 \<subseteq> E" by auto
  from a sub have a0: "acyclic ?E0" by (rule acyclic_subset)
  from n rtrancl_mono[OF sub] have "(p, x) \<notin> ?E0\<^sup>*" by blast
  with a0 have "acyclic (insert (x, p) ?E0)" by (simp add: acyclic_insert)
  moreover from s have "E' \<subseteq> insert (x, p) ?E0" by auto
  ultimately show ?thesis by (rule acyclic_subset)
qed

lemma update_menu_preserves_tree:
  assumes t: "menu_tree db"
  shows "menu_tree (fst (update_menu db (StrKey x) menu_data))"
proof (cases "\<exists>e. update_menu db (StrKey x) menu_data = (db, Inl e)")
  case True
  with t show ?thesis by auto
next
  case False
  then obtain menu where g: "session_get_Menu db (StrKey x) = Some menu"
    and v: "validate_parent db (StrKey x) menu_data = None"
    and u: "update_menu db (StrKey x) menu_data = (commit_menu db (set_fields menu_data menu), Inr ())"
    by (auto simp: update_menu_def split: option.splits if_splits)
  let ?new = "set_fields menu_data menu"
  let ?db = "commit_menu db ?new"
  from session_get_Menu_Some[OF g] have min: "menu \<in> set (menus db)" and mid: "m_id menu = x" by simp_all
  have nid: "m_id ?new = x" using mid by (simp add: set_fields_def)
  from menu_tree_id_nonempty[OF t g] have x: "x \<noteq> []" .
  from t have a: "acyclic (parent_edges db)" and e: "[] \<notin> set (map m_id (menus db))"
    by (simp_all add: menu_tree_def)
  have acyc: "acyclic (parent_edges ?db)"
  proof (cases "m_parent_id ?new")
    case None
    have "parent_edges ?db \<subseteq> parent_edges db"
      using parent_edges_commit[of _ _ db ?new] None by auto
    with a show ?thesis by (rule acyclic_subset)
  next
    case (Some q)
    have s: "parent_edges ?db \<subseteq> {(a, r). a \<noteq> x \<and> (a, r) \<in> parent_edges db} \<union> {(x, q)}"
      using parent_edges_commit[of _ _ db ?new] Some nid by auto
    show ?thesis
    proof (cases "md_parent_id menu_data")
      case None
      with Some have "m_parent_id menu = Some q" by (simp add: set_fields_def)
      with min mid have "(x, q) \<in> parent_edges db" by (auto simp: parent_edges_iff)
      with s have "parent_edges ?db \<subseteq> parent_edges db" by auto
      with a show ?thesis by (rule acyclic_subset)
    next
      case (Some w)
      with \<open>m_parent_id ?new = Some q\<close> have w: "md_parent_id menu_data = Some (Some q)"
        by (simp add: set_fields_def)
      have "(q, x) \<notin> (parent_edges db)\<^sup>*"
      proof
        assume r: "(q, x) \<in> (parent_edges db)\<^sup>*"
        from update_menu_rejects_descendant[OF t g w r] u show False by simp
      qed
      from acyclic_redirect[OF a s this] show ?thesis .
    qed
  qed
  from t have "distinct (map m_id (menus ?db))" "[] \<notin> set (map m_id (menus ?db))"
    unfolding map_m_id_commit by (simp_all add: menu_tree_def)
  with acyc u show ?thesis by (simp add: menu_tree_def)
qed

lemma create_menu_preserves_tree:
  assumes t: "menu_tree db"
    and n: "new_id \<noteq> []"
    and f: "\<forall>m \<in> set (menus db). m_parent_id m \<noteq> Some new_id"
  shows "menu_tree (fst (create_menu db new_id menu_data))"
proof (cases "fst (create_menu db new_id menu_data) = db")
  case True
  with t show ?thesis by simp
next
  case False
  have shape: "fst (create_menu db new_id menu_data) = db
      \<or> (\<exists>k nm. fst (create_menu db new_id menu_data)
                   = db\<lparr>menus := menus db @ [new_menu new_id k nm menu_data]\<rparr>
                 \<and> new_id \<notin> set (map m_id (menus db))
                 \<and> (truthy (get_parent_id menu_data)
                      \<longrightarrow> session_get_Menu db (StrKey (the (get_parent_id menu_data))) \<noteq> None))"
    by (auto simp: create_menu_def split: option.splits)
  with False obtain k nm where
    c0: "fst (create_menu db new_id menu_data) = db\<lparr>menus := menus db @ [new_menu new_id k nm menu_data]\<rparr>"
    and fresh: "new_id \<notin> set (map m_id (menus db))"
    and par: "truthy (get_parent_id menu_data)
              \<longrightarrow> session_get_Menu db (StrKey (the (get_parent_id menu_data))) \<noteq> None"
    by blast
  define row where "row = new_menu new_id k nm menu_data"
  have rid: "m_id row = new_id" and rp: "m_parent_id row = get_parent_id menu_data"
    by (simp_all add: row_def new_menu_def)
  from c0 have c: "fst (create_menu db new_id menu_data) = db\<lparr>menus := menus db @ [row]\<rparr>"
    by (simp add: row_def)
  let ?E = "parent_edges db"
  from t have a: "acyclic ?E" and d: "distinct (map m_id (menus db))"
    and e: "[] \<notin> set (map m_id (menus db))" by (simp_all add: menu_tree_def)
  have into: "(z, new_id) \<notin> ?E" for z using f by (auto simp: parent_edges_iff)
  have acyc: "acyclic (parent_edges (db\<lparr>menus := menus db @ [row]\<rparr>))"
  proof (cases "get_parent_id menu_data")
    case None
    with rp have "parent_edges (db\<lparr>menus := menus db @ [row]\<rparr>) = ?E"
      by (auto simp: parent_edges_iff)
    with a show ?thesis by simp
  next
    case (Some p)
    with rp rid have eq: "parent_edges (db\<lparr>menus := menus db @ [row]\<rparr>) = insert (new_id, p) ?E"
      by (auto simp: parent_edges_iff)
    have pn: "p \<noteq> new_id"
    proof (cases "p = []")
      case True with n show ?thesis by simp
    next
      case False
      with Some par have "session_get_Menu db (StrKey p) \<noteq> None" by (simp add: truthy_def)
      then have "p \<in> set (map m_id (menus db))" by (simp add: session_get_Menu_None)
      with fresh show ?thesis by auto
    qed
    have "(p, new_id) \<notin> ?E\<^sup>*"
    proof
      assume "(p, new_id) \<in> ?E\<^sup>*"
      with pn obtain z where "(z, new_id) \<in> ?E" by (auto elim: rtranclE)
      with into show False by simp
    qed
    with a eq show ?thesis by (simp add: acyclic_insert)
  qed
  from d e fresh n rid have "distinct (map m_id (menus db @ [row]))" "[] \<notin> set (map m_id (menus db @ [row]))"
    by auto
  with acyc c show ?thesis by (simp add: menu_tree_def)
qed

text \<open>
  \<open>delete_menu\<close> only removes rows, so it keeps the table a tree; and on a tree it
  returns, at some depth of calls.
\<close>

lemma filtered_refl: "\<exists>P. xs = filter P xs"
  by (rule exI[of _ "\<lambda>x. True"]) simp

lemma filtered_step: "\<exists>P. filter Q xs = filter P xs"
  by blast

lemma filtered_trans:
  assumes "\<exists>P. xs = filter P ys" "\<exists>P. ys = filter P zs"
  shows "\<exists>P. xs = filter P zs"
proof -
  from assms obtain P Q where "xs = filter P ys" "ys = filter Q zs" by blast
  then have "xs = filter (\<lambda>x. Q x \<and> P x) zs" by simp
  then show ?thesis by blast
qed


lemma delete_filtered:
  shows "\<forall>db' r. delete_menu depth db menu_id cascade = Some (db', r) \<longrightarrow> (\<exists>P. menus db' = filter P (menus db))"
    and "\<forall>db' r. delete_children depth db children n = Some (db', r) \<longrightarrow> (\<exists>P. menus db' = filter P (menus db))"
proof (induction depth db menu_id cascade and depth db children n
       rule: delete_menu_delete_children.induct)
  case (1 db menu_id cascade)
  show ?case by simp
next
  case (2 depth db menu_id cascade)
  show ?case
  proof (intro allI impI)
    fix db' r
    assume res: "delete_menu (Suc depth) db menu_id cascade = Some (db', r)"
    show "(\<exists>P. menus db' = filter P (menus db))"
    proof (cases "session_get_Menu db menu_id")
      case None
      with res show ?thesis using filtered_refl[of "menus db"] by auto
    next
      case (Some menu)
      let ?children = "filter (\<lambda>m. m_parent_id m = Some (str_of_key menu_id)) (menus db)"
      show ?thesis
      proof (cases "?children \<noteq> [] \<and> \<not> cascade")
        case True
        with res Some show ?thesis using filtered_refl[of "menus db"] by (auto simp: Let_def)
      next
        case False
        show ?thesis
        proof (cases "cascade \<and> ?children \<noteq> []")
          case True
          note ih = "2.IH"[OF Some refl False True]
          from res Some False True obtain db1 r1 where
            d: "delete_children depth db ?children 0 = Some (db1, r1)"
            by (auto simp: Let_def split: option.splits)
          from ih d have s1: "(\<exists>P. menus db1 = filter P (menus db))" by blast
          from res Some False True d
          have "db' = db1 \<or> menus db' = filter (\<lambda>m. m_id m \<noteq> m_id menu) (menus db1)"
            by (auto simp: Let_def split: sum.splits)
          then have "(\<exists>P. menus db' = filter P (menus db1))"
            using filtered_refl filtered_step by metis
          from filtered_trans[OF this s1] show ?thesis .
        next
          case c: False
          with res Some False
          have "menus db' = filter (\<lambda>m. m_id m \<noteq> m_id menu) (menus db)"
            by (auto simp: Let_def)
          then show ?thesis by blast
        qed
      qed
    qed
  qed
next
  case (3 depth db deleted_count)
  show ?case using filtered_refl[of "menus db"] by auto
next
  case (4 depth db child rest deleted_count)
  show ?case
  proof (intro allI impI)
    fix db' r
    assume res: "delete_children depth db (child # rest) deleted_count = Some (db', r)"
    then obtain db1 r1 where d: "delete_menu depth db (StrKey (m_id child)) True = Some (db1, r1)"
      by (auto split: option.splits)
    from "4.IH"(1) d have s1: "(\<exists>P. menus db1 = filter P (menus db))" by blast
    show "(\<exists>P. menus db' = filter P (menus db))"
    proof (cases r1)
      case (Inl e)
      with res d have "db' = db1" by simp
      with s1 show ?thesis by simp
    next
      case (Inr k)
      with res d have r2: "delete_children depth db1 rest (deleted_count + k) = Some (db', r)" by simp
      from "4.IH"(2)[OF d[unfolded Inr] refl refl] r2 have "(\<exists>P. menus db' = filter P (menus db1))" by blast
      from filtered_trans[OF this s1] show ?thesis .
    qed
  qed
qed

lemma filtered_preserves_tree:
  assumes t: "menu_tree db" and s: "\<exists>P. menus db' = filter P (menus db)"
  shows "menu_tree db'"
proof -
  from s obtain P where P: "menus db' = filter P (menus db)" by blast
  then have ss: "set (menus db') \<subseteq> set (menus db)" by auto
  from t P have d: "distinct (map m_id (menus db'))" by (simp add: menu_tree_def distinct_map_filter)
  from ss t have e: "[] \<notin> set (map m_id (menus db'))" by (auto simp: menu_tree_def)
  have "parent_edges db' \<subseteq> parent_edges db"
  proof
    fix e assume "e \<in> parent_edges db'"
    then obtain m where "m \<in> set (menus db')" "e = (m_id m, the (m_parent_id m))" "m_parent_id m \<noteq> None"
      by (auto simp: parent_edges_def)
    with ss show "e \<in> parent_edges db" by (auto simp: parent_edges_def)
  qed
  with t have "acyclic (parent_edges db')" by (auto simp: menu_tree_def intro: acyclic_subset)
  with d e show ?thesis by (simp add: menu_tree_def)
qed

lemma delete_menu_preserves_tree:
  assumes "menu_tree db" "delete_menu depth db menu_id cascade = Some (db', r)"
  shows "menu_tree db'"
  using assms delete_filtered(1) filtered_preserves_tree by blast

lemma delete_depth_Suc:
  shows "\<forall>res. delete_menu depth db menu_id cascade = Some res
           \<longrightarrow> delete_menu (Suc depth) db menu_id cascade = Some res"
    and "\<forall>res. delete_children depth db children n = Some res
           \<longrightarrow> delete_children (Suc depth) db children n = Some res"
proof (induction depth db menu_id cascade and depth db children n
       rule: delete_menu_delete_children.induct)
  case (1 db menu_id cascade)
  show ?case by simp
next
  case (2 depth db menu_id cascade)
  show ?case
  proof (intro allI impI)
    fix res
    assume res: "delete_menu (Suc depth) db menu_id cascade = Some res"
    show "delete_menu (Suc (Suc depth)) db menu_id cascade = Some res"
    proof (cases "session_get_Menu db menu_id")
      case None
      with res show ?thesis by simp
    next
      case (Some menu)
      let ?children = "filter (\<lambda>m. m_parent_id m = Some (str_of_key menu_id)) (menus db)"
      show ?thesis
      proof (cases "?children \<noteq> [] \<and> \<not> cascade")
        case True
        with res Some show ?thesis by (simp add: Let_def)
      next
        case False
        show ?thesis
        proof (cases "cascade \<and> ?children \<noteq> []")
          case True
          from res Some False True obtain r1 where
            d: "delete_children depth db ?children 0 = Some r1"
            by (auto simp: Let_def split: option.splits)
          from "2.IH"[OF Some refl False True] d
          have d': "delete_children (Suc depth) db ?children 0 = Some r1" by blast
          from res Some False True d have
            "(case r1 of (db', Inl e) \<Rightarrow> Some (db', Inl e)
              | (db', Inr deleted_count) \<Rightarrow>
                  Some (db'\<lparr>menus := filter (\<lambda>m. m_id m \<noteq> m_id menu) (menus db'),
                            role_menus := filter (\<lambda>r. rm_menu_id r \<noteq> str_of_key menu_id)
                                            (role_menus db')\<rparr>,
                        Inr (deleted_count + 1))) = Some res"
            by (simp add: Let_def)
          with Some False True d' show ?thesis
            by (subst delete_menu.simps) (simp add: Let_def)
        next
          case c: False
          with res Some False show ?thesis by (auto simp: Let_def)
        qed
      qed
    qed
  qed
next
  case (3 depth db deleted_count)
  show ?case by simp
next
  case (4 depth db child rest deleted_count)
  show ?case
  proof (intro allI impI)
    fix res
    assume res: "delete_children depth db (child # rest) deleted_count = Some res"
    then obtain db1 r1 where d: "delete_menu depth db (StrKey (m_id child)) True = Some (db1, r1)"
      by (auto split: option.splits)
    from "4.IH"(1) d have d': "delete_menu (Suc depth) db (StrKey (m_id child)) True = Some (db1, r1)"
      by blast
    show "delete_children (Suc depth) db (child # rest) deleted_count = Some res"
    proof (cases r1)
      case (Inl e)
      with res d d' show ?thesis by (auto simp del: delete_menu.simps)
    next
      case (Inr k)
      with res d have r2: "delete_children depth db1 rest (deleted_count + k) = Some res" by simp
      from "4.IH"(2)[OF d[unfolded Inr] refl refl] r2
      have "delete_children (Suc depth) db1 rest (deleted_count + k) = Some res" by blast
      with d' Inr show ?thesis by (auto simp del: delete_menu.simps)
    qed
  qed
qed

lemma delete_menu_depth_add:
  assumes "delete_menu depth db menu_id cascade = Some res"
  shows "delete_menu (depth + k) db menu_id cascade = Some res"
proof (induction k)
  case 0
  from assms show ?case by (simp only: add_0_right)
next
  case (Suc k)
  with delete_depth_Suc(1) have "delete_menu (Suc (depth + k)) db menu_id cascade = Some res" by blast
  then show ?case by (simp only: add_Suc_right)
qed

lemma delete_children_depth_add:
  assumes "delete_children depth db children n = Some res"
  shows "delete_children (depth + k) db children n = Some res"
proof (induction k)
  case 0
  from assms show ?case by (simp only: add_0_right)
next
  case (Suc k)
  with delete_depth_Suc(2) have "delete_children (Suc (depth + k)) db children n = Some res" by blast
  then show ?case by (simp only: add_Suc_right)
qed

lemma delete_children_returns:
  assumes ih: "\<And>c db'. c \<in> set children \<Longrightarrow> \<exists>P. menus db' = filter P (menus db)
                 \<Longrightarrow> \<exists>depth res. delete_menu depth db' (StrKey (m_id c)) True = Some res"
  shows "(\<exists>P. menus db' = filter P (menus db))
         \<Longrightarrow> \<exists>depth res. delete_children depth db' children n = Some res"
  using ih
proof (induction children arbitrary: db' n)
  case Nil
  show ?case by simp
next
  case (Cons c rest)
  from Cons.prems(2)[of c db'] Cons.prems(1)
  obtain d1 db1 r1 where d1: "delete_menu d1 db' (StrKey (m_id c)) True = Some (db1, r1)"
    by fastforce
  show ?case
  proof (cases r1)
    case (Inl e)
    with d1 have "delete_children d1 db' (c # rest) n = Some (db1, Inl e)" by simp
    then show ?thesis by blast
  next
    case (Inr k)
    from delete_filtered(1) d1 have "\<exists>P. menus db1 = filter P (menus db')" by blast
    from filtered_trans[OF this Cons.prems(1)] have f1: "\<exists>P. menus db1 = filter P (menus db)" .
    have "\<exists>depth res. delete_children depth db1 rest (n + k) = Some res"
      by (rule Cons.IH[OF f1]) (use Cons.prems(2) in auto)
    then obtain d2 res where d2: "delete_children d2 db1 rest (n + k) = Some res" by blast
    from delete_menu_depth_add[OF d1, of d2]
    have a: "delete_menu (d1 + d2) db' (StrKey (m_id c)) True = Some (db1, r1)" .
    from delete_children_depth_add[OF d2, of d1]
    have b: "delete_children (d1 + d2) db1 rest (n + k) = Some res" by (simp only: add.commute)
    from a b Inr have "delete_children (d1 + d2) db' (c # rest) n = Some res" by simp
    then show ?thesis by blast
  qed
qed

lemma delete_menu_returns_str:
  assumes a: "acyclic (parent_edges db)"
  shows "(\<exists>P. menus db' = filter P (menus db))
         \<Longrightarrow> \<exists>depth res. delete_menu depth db' key cascade = Some res"
proof -
  have fin: "finite (parent_edges db)" by (simp add: parent_edges_def)
  from finite_acyclic_wf[OF fin a] have wf: "wf (parent_edges db)" .
  have main: "\<forall>(db' :: menu_db) key cascade. str_of_key key = x \<longrightarrow> (\<exists>P. menus db' = filter P (menus db))
              \<longrightarrow> (\<exists>depth res. delete_menu depth db' key cascade = Some res)" for x
  using wf
  proof (induction x rule: wf_induct_rule)
    case (less x)
    show ?case
    proof (intro allI impI)
      fix db' :: menu_db and key cascade
      assume k: "str_of_key key = x" and f: "\<exists>P. menus db' = filter P (menus db)"
      let ?children = "filter (\<lambda>m. m_parent_id m = Some (str_of_key key)) (menus db')"
      have ch: "\<exists>depth res. delete_children depth db' ?children 0 = Some res"
      proof (rule delete_children_returns[OF _ f])
        fix c and db2 :: menu_db
        assume c: "c \<in> set ?children" and f2: "\<exists>P. menus db2 = filter P (menus db)"
        from f obtain P where "menus db' = filter P (menus db)" by blast
        with c k have "c \<in> set (menus db)" "m_parent_id c = Some x" by auto
        then have "(m_id c, x) \<in> parent_edges db" by (auto simp: parent_edges_iff)
        from less.IH[OF this] f2
        show "\<exists>depth res. delete_menu depth db2 (StrKey (m_id c)) True = Some res"
          by simp
      qed
      then obtain d r where d: "delete_children d db' ?children 0 = Some r" by blast
      have "\<exists>res. delete_menu (Suc d) db' key cascade = Some res"
        using d by (cases r) (auto simp: Let_def split: option.splits sum.splits)
      then show "\<exists>depth res. delete_menu depth db' key cascade = Some res" by blast
    qed
  qed
  then show "(\<exists>P. menus db' = filter P (menus db))
         \<Longrightarrow> \<exists>depth res. delete_menu depth db' key cascade = Some res" by blast
qed

lemma delete_menu_returns:
  assumes "menu_tree db"
  shows "\<exists>depth db' r. delete_menu depth db menu_id cascade = Some (db', r) \<and> menu_tree db'"
proof -
  from assms have "acyclic (parent_edges db)" by (simp add: menu_tree_def)
  from delete_menu_returns_str[OF this filtered_refl[of "menus db"], of menu_id cascade]
  obtain depth res where "delete_menu depth db menu_id cascade = Some res" by blast
  then obtain db' r where d: "delete_menu depth db menu_id cascade = Some (db', r)" by (cases res) auto
  from delete_menu_preserves_tree[OF assms d] d show ?thesis by blast
qed

text \<open>The sample table, and the update of the root through the endpoint and through the service.\<close>

lemma menu_example_tree: "menu_tree menu_example"
proof -
  have e: "parent_edges menu_example = {(child_id, root_id)}"
    by (simp add: parent_edges_def menu_example_def menu_row_def)
  have n: "root_id \<noteq> child_id" by (simp add: root_id_def child_id_def)
  have "acyclic ({} :: (string \<times> string) set)" by (simp add: acyclic_def)
  with n have "acyclic {(child_id, root_id)}" by (simp add: acyclic_insert)
  with e show ?thesis
    by (simp add: menu_tree_def menu_example_def menu_row_def root_id_def child_id_def)
qed

lemma put_self:
  "MenuDetailApi_put menu_example root_id (parent_request root_id)
     = (\<lparr>menus = [menu_row root_id ''system'' (Some root_id),
                   menu_row child_id ''users'' (Some root_id)],
         role_menus = []\<rparr>, True, 200)"
  by (simp add: MenuDetailApi_put_def update_menu_def validate_parent_def would_create_cycle_def
        would_create_cycle_loop.simps session_get_Menu_def get_parent_id_def truthy_def
        commit_menu_def set_fields_def parent_request_def menu_example_def menu_row_def
        root_id_def child_id_def Let_def)

lemma put_child:
  "MenuDetailApi_put menu_example root_id (parent_request child_id)
     = (\<lparr>menus = [menu_row root_id ''system'' (Some child_id),
                   menu_row child_id ''users'' (Some root_id)],
         role_menus = []\<rparr>, True, 200)"
  by (simp add: MenuDetailApi_put_def update_menu_def validate_parent_def would_create_cycle_def
        would_create_cycle_loop.simps session_get_Menu_def get_parent_id_def truthy_def
        commit_menu_def set_fields_def parent_request_def menu_example_def menu_row_def
        root_id_def child_id_def Let_def)

lemma str_self:
  "update_menu menu_example (StrKey root_id) (parent_request root_id)
     = (menu_example, Inl (ValueError ''a menu cannot be its own parent''))"
  by (simp add: update_menu_def validate_parent_def session_get_Menu_def get_parent_id_def
        truthy_def parent_request_def menu_example_def menu_row_def root_id_def child_id_def Let_def)

lemma str_child:
  "update_menu menu_example (StrKey root_id) (parent_request child_id)
     = (menu_example, Inl (ValueError ''setting the parent would create a cycle''))"
  by (simp add: update_menu_def validate_parent_def would_create_cycle_def
        would_create_cycle_loop.simps session_get_Menu_def get_parent_id_def truthy_def
        parent_request_def menu_example_def menu_row_def root_id_def child_id_def Let_def)

lemma self_loop_cyclic: "(a, a) \<in> E \<Longrightarrow> \<not> acyclic E"
  by (auto simp: acyclic_def)

lemma two_cycle_cyclic: "(a, b) \<in> E \<Longrightarrow> (b, a) \<in> E \<Longrightarrow> \<not> acyclic E"
  by (meson acyclic_def r_into_trancl' trancl_trans)

text \<open>
  Claim C8. On the sample table, which is a tree, \<open>PUT /workspaces/current/menus/<root>\<close>
  with the body \<open>{"parent_id": <root>}\<close> is accepted with status 200 and writes the row:
  the root is its own parent and the parent-id graph has a cycle. The same request with
  the root's child as parent is accepted as well and leaves a cycle of two rows. The
  route hands \<open>update_menu\<close> a \<open>uuid.UUID\<close>, which the two comparisons with a \<open>str\<close>
  (lines 58 and 82) never find equal. Called with the id as a \<open>str\<close>, \<open>update_menu\<close>
  rejects both requests and leaves the table as it was.
\<close>

theorem menu_put_accepts_cycle:
  "menu_tree menu_example
   \<and> MenuDetailApi_put menu_example root_id (parent_request root_id)
       = (\<lparr>menus = [menu_row root_id ''system'' (Some root_id),
                     menu_row child_id ''users'' (Some root_id)],
           role_menus = []\<rparr>, True, 200)
   \<and> \<not> acyclic (parent_edges (fst (MenuDetailApi_put menu_example root_id (parent_request root_id))))
   \<and> MenuDetailApi_put menu_example root_id (parent_request child_id)
       = (\<lparr>menus = [menu_row root_id ''system'' (Some child_id),
                     menu_row child_id ''users'' (Some root_id)],
           role_menus = []\<rparr>, True, 200)
   \<and> \<not> acyclic (parent_edges (fst (MenuDetailApi_put menu_example root_id (parent_request child_id))))
   \<and> update_menu menu_example (StrKey root_id) (parent_request root_id)
       = (menu_example, Inl (ValueError ''a menu cannot be its own parent''))
   \<and> update_menu menu_example (StrKey root_id) (parent_request child_id)
       = (menu_example, Inl (ValueError ''setting the parent would create a cycle''))"
proof -
  have c1: "\<not> acyclic (parent_edges (fst (MenuDetailApi_put menu_example root_id (parent_request root_id))))"
    unfolding put_self
    by (rule self_loop_cyclic[of root_id]) (simp add: parent_edges_def menu_row_def)
  have c2: "\<not> acyclic (parent_edges (fst (MenuDetailApi_put menu_example root_id (parent_request child_id))))"
    unfolding put_child
    by (rule two_cycle_cyclic[of root_id child_id]) (simp_all add: parent_edges_def menu_row_def)
  from menu_example_tree put_self c1 put_child c2 str_self str_child show ?thesis by blast
qed

end
